theory Spec2Isabelle
  imports Main "HOL-Library.Log_Nat" "HOL-Library.Word"
begin

section \<open>Python values used by \<^verbatim>\<open>torch/_decomp/decompositions_for_rng.py\<close>\<close>

text \<open>
  The exceptions the file can raise.  \<^verbatim>\<open>assert\<close> raises AssertionError, the guard of
  registered decompositions raises ValueError, \<^verbatim>\<open>throw_on_non_cuda\<close> raises RuntimeError,
  reading \<^verbatim>\<open>.type\<close> of a string raises AttributeError, true division raises
  ZeroDivisionError or OverflowError.
\<close>

datatype py_error =
    ValueError string
  | RuntimeError string
  | AttributeError string
  | AssertionError
  | ZeroDivisionError
  | OverflowError
  | IndexError

subsection \<open>Python floats (IEEE binary64)\<close>

text \<open>
  \<^verbatim>\<open>rand_offset_calculator\<close> divides integers with \<^verbatim>\<open>/\<close>, which in Python is true division:
  the result is the binary64 number nearest to the exact quotient (ties to even).
  A finite float \<open>Finite m e\<close> stands for \<open>m * 2 ^ e\<close>; the sign of zero is not
  represented (no operation used here distinguishes it).
\<close>

datatype py_float = Finite int int | PosInf | NegInf | NaN

definition round_half_even :: "int \<Rightarrow> int \<Rightarrow> int" where
  \<comment> \<open>the integer nearest to \<open>n / d\<close> for \<open>0 \<le> n\<close>, \<open>0 < d\<close>, ties to the even one\<close>
  "round_half_even n d =
     (let q = n div d; r = n mod d
      in if 2 * r < d then q
         else if d < 2 * r then q + 1
         else if even q then q else q + 1)"

definition floor_log2_ratio :: "int \<Rightarrow> int \<Rightarrow> int" where
  \<comment> \<open>\<open>\<lfloor>log\<^sub>2 (a / b)\<rfloor>\<close> for \<open>0 < a\<close>, \<open>0 < b\<close>, from the bit lengths\<close>
  "floor_log2_ratio a b =
     (let d = bitlen a - bitlen b
      in if b * 2 ^ nat d \<le> a * 2 ^ nat (- d) then d else d - 1)"

definition round_to_double :: "int \<Rightarrow> int \<Rightarrow> py_float" where
  \<comment> \<open>the binary64 value of \<open>a / b\<close> for \<open>0 \<le> a\<close>, \<open>0 < b\<close>: 53 significant bits,
      exponents down to the subnormal range, infinity from \<open>2 ^ 1024\<close> on\<close>
  "round_to_double a b =
     (if a = 0 then Finite 0 0
      else let e = floor_log2_ratio a b;
               s = max e (- 1022) - 52;
               m = round_half_even (a * 2 ^ nat (- s)) (b * 2 ^ nat s)
           in if 971 < s \<or> (s = 971 \<and> m = 2 ^ 53) then PosInf else Finite m s)"

fun float_neg :: "py_float \<Rightarrow> py_float" where
  "float_neg (Finite m e) = Finite (- m) e"
| "float_neg PosInf = NegInf"
| "float_neg NegInf = PosInf"
| "float_neg NaN = NaN"

definition float_of_ratio :: "int \<Rightarrow> int \<Rightarrow> py_float" where
  \<comment> \<open>the binary64 value of \<open>a / b\<close> for \<open>b \<noteq> 0\<close>\<close>
  "float_of_ratio a b =
     (if (a < 0) = (b < 0) then round_to_double \<bar>a\<bar> \<bar>b\<bar>
      else float_neg (round_to_double \<bar>a\<bar> \<bar>b\<bar>))"

definition py_truediv :: "int \<Rightarrow> int \<Rightarrow> py_error + py_float" where
  \<comment> \<open>\<^verbatim>\<open>a / b\<close> on Python ints\<close>
  "py_truediv a b =
     (if b = 0 then Inl ZeroDivisionError
      else case float_of_ratio a b of
             Finite m e \<Rightarrow> Inr (Finite m e)
           | _ \<Rightarrow> Inl OverflowError)"

definition py_float_of_int :: "int \<Rightarrow> py_error + py_float" where
  \<comment> \<open>the conversion of an int operand of a float operation\<close>
  "py_float_of_int n =
     (case float_of_ratio n 1 of
        Finite m e \<Rightarrow> Inr (Finite m e)
      | _ \<Rightarrow> Inl OverflowError)"

fun float_add :: "py_float \<Rightarrow> py_float \<Rightarrow> py_float" where
  "float_add (Finite m1 e1) (Finite m2 e2) =
     (let e = min e1 e2;
          n = m1 * 2 ^ nat (e1 - e) + m2 * 2 ^ nat (e2 - e)
      in float_of_ratio (n * 2 ^ nat e) (2 ^ nat (- e)))"
| "float_add NaN _ = NaN"
| "float_add _ NaN = NaN"
| "float_add PosInf NegInf = NaN"
| "float_add NegInf PosInf = NaN"
| "float_add PosInf _ = PosInf"
| "float_add NegInf _ = NegInf"
| "float_add _ PosInf = PosInf"
| "float_add _ NegInf = NegInf"

definition py_float_add_int :: "py_float \<Rightarrow> int \<Rightarrow> py_error + py_float" where
  \<comment> \<open>\<^verbatim>\<open>x + n\<close> for a float \<open>x\<close> and an int \<open>n\<close>\<close>
  "py_float_add_int x n =
     (case py_float_of_int n of
        Inl err \<Rightarrow> Inl err
      | Inr y \<Rightarrow> Inr (float_add x y))"

fun py_int_of_float :: "py_float \<Rightarrow> py_error + int" where
  \<comment> \<open>\<^verbatim>\<open>int(x)\<close>: truncation towards zero\<close>
  "py_int_of_float (Finite m e) =
     Inr (if 0 \<le> e then m * 2 ^ nat e
          else if 0 \<le> m then m div 2 ^ nat (- e)
          else - ((- m) div 2 ^ nat (- e)))"
| "py_int_of_float PosInf = Inl OverflowError"
| "py_int_of_float NegInf = Inl OverflowError"
| "py_int_of_float NaN = Inl (ValueError ''cannot convert float NaN to integer'')"

definition bind_err :: "'e + 'a \<Rightarrow> ('a \<Rightarrow> 'e + 'b) \<Rightarrow> 'e + 'b" where
  \<comment> \<open>sequencing of calls that may raise\<close>
  "bind_err x f = (case x of Inl err \<Rightarrow> Inl err | Inr v \<Rightarrow> f v)"

section \<open>The offset calculator\<close>

text \<open>
  The two fields of \<^verbatim>\<open>torch.cuda.get_device_properties(...)\<close> that the calculator reads.
  The query itself belongs to the device driver; its result is a parameter here.
\<close>

record device_properties =
  max_threads_per_multi_processor :: int
  multi_processor_count :: int

definition rand_offset_calculator :: "device_properties \<Rightarrow> int list \<Rightarrow> py_error + int" where
  "rand_offset_calculator device_property shape =
     (let numel = foldl (*) 1 shape;
          block_size = 256;
          unroll = 4;
          curand4_engine_calls = 4
      in bind_err (bind_err (py_truediv (max_threads_per_multi_processor device_property) block_size)
                     py_int_of_float) (\<lambda>blocks_per_sm.
         bind_err (bind_err (py_truediv (numel + block_size - 1) block_size)
                     py_int_of_float) (\<lambda>grid_size0.
         let grid_size = min grid_size0 (multi_processor_count device_property * blocks_per_sm)
         in bind_err (bind_err (bind_err (py_truediv (numel - 1) (block_size * grid_size * unroll))
                                  (\<lambda>q. py_float_add_int q 1))
                        py_int_of_float) (\<lambda>k.
            Inr (k * curand4_engine_calls)))))"

section \<open>PhiloxState\<close>

text \<open>
  The tensors kept in \<^verbatim>\<open>seed\<close> and \<^verbatim>\<open>base_offset\<close> are the empty tensor
  \<^verbatim>\<open>torch.Tensor(())\<close> that \<^verbatim>\<open>reset\<close> stores and the one-element integer tensors that
  \<^verbatim>\<open>record_state\<close> receives.  The element type \<open>'a\<close> is the tensor library's integer type
  (\<open>int\<close>, or \<open>64 word\<close> for int64 with wrap-around); adding the Python int
  \<^verbatim>\<open>relative_offset\<close> to a tensor adds \<open>of_int relative_offset\<close> to its element.
\<close>

datatype 'a tensor = Empty | Scalar 'a

fun numel :: "'a tensor \<Rightarrow> nat" where
  "numel Empty = 0"
| "numel (Scalar x) = 1"

fun tensor_add_int :: "'a::ring_1 tensor \<Rightarrow> int \<Rightarrow> 'a tensor" where
  "tensor_add_int Empty n = Empty"
| "tensor_add_int (Scalar x) n = Scalar (x + of_int n)"

text \<open>
  A stacked tensor is given by its entries along dimension 0.  \<^verbatim>\<open>torch.stack\<close> needs
  tensors of one shape; \<^verbatim>\<open>torch.split(state, 1)\<close> yields the entries along dimension 0.
\<close>

definition torch_stack :: "'a tensor list \<Rightarrow> py_error + 'a tensor list" where
  "torch_stack ts =
     (case ts of
        [] \<Rightarrow> Inl (RuntimeError ''stack expects a non-empty TensorList'')
      | t # rest \<Rightarrow>
          if list_all (\<lambda>u. numel u = numel t) rest then Inr ts
          else Inl (RuntimeError ''stack expects each tensor to be equal size''))"

definition torch_split_1 :: "'a tensor list \<Rightarrow> 'a tensor list" where
  "torch_split_1 state = state"

record 'a PhiloxState =
  seed :: "'a tensor"
  base_offset :: "'a tensor"
  relative_offset :: int

definition PhiloxState_reset :: "'a PhiloxState \<Rightarrow> 'a PhiloxState" where
  "PhiloxState_reset self = self\<lparr>seed := Empty, base_offset := Empty, relative_offset := 0\<rparr>"

definition PhiloxState_init :: "'a PhiloxState" where
  \<comment> \<open>\<^verbatim>\<open>PhiloxState()\<close>: the constructor only calls \<^verbatim>\<open>reset\<close>\<close>
  "PhiloxState_init = \<lparr>seed = Empty, base_offset = Empty, relative_offset = 0\<rparr>"

definition PhiloxState_validate_state :: "'a PhiloxState \<Rightarrow> py_error + unit" where
  "PhiloxState_validate_state self =
     (if numel (seed self) \<noteq> 0 \<and> numel (base_offset self) \<noteq> 0 then Inr ()
      else Inl AssertionError)"

definition PhiloxState_advance_offset :: "int \<Rightarrow> 'a PhiloxState \<Rightarrow> 'a PhiloxState" where
  "PhiloxState_advance_offset consumed_offset self =
     self\<lparr>relative_offset := relative_offset self + consumed_offset\<rparr>"

definition PhiloxState_set_state ::
  "'a tensor \<Rightarrow> 'a tensor \<Rightarrow> int \<Rightarrow> 'a PhiloxState \<Rightarrow> 'a PhiloxState" where
  "PhiloxState_set_state sd base rel self =
     self\<lparr>seed := sd, base_offset := base, relative_offset := rel\<rparr>"

definition PhiloxState_get_state_as_tuple ::
  "'a::ring_1 PhiloxState \<Rightarrow> py_error + ('a tensor \<times> 'a tensor)" where
  "PhiloxState_get_state_as_tuple self =
     bind_err (PhiloxState_validate_state self) (\<lambda>_.
       Inr (seed self, tensor_add_int (base_offset self) (relative_offset self)))"

definition PhiloxState_get_state_as_tensor ::
  "'a::ring_1 PhiloxState \<Rightarrow> py_error + 'a tensor list" where
  "PhiloxState_get_state_as_tensor self =
     bind_err (PhiloxState_validate_state self) (\<lambda>_.
       torch_stack [seed self, tensor_add_int (base_offset self) (relative_offset self)])"

definition PhiloxState_set_state_from_tensor ::
  "'a tensor list \<Rightarrow> 'a PhiloxState \<Rightarrow> py_error + 'a PhiloxState" where
  \<comment> \<open>unpacking into two names fails unless the split yields exactly two tensors;
      nothing is assigned then\<close>
  "PhiloxState_set_state_from_tensor state self =
     (case torch_split_1 state of
        [sd, base] \<Rightarrow> Inr (self\<lparr>seed := sd, base_offset := base, relative_offset := 0\<rparr>)
      | _ \<Rightarrow> Inl (ValueError ''wrong number of values to unpack (expected 2)''))"

record PhiloxTotalOffsets =
  total_fwd_offset :: int
  total_bwd_offset :: int

section \<open>PhiloxStateTracker\<close>

text \<open>
  The class attributes \<^verbatim>\<open>running_state\<close>, \<^verbatim>\<open>fwd_state\<close> and \<^verbatim>\<open>bwd_state\<close> are references
  to PhiloxState objects, and \<^verbatim>\<open>running_state\<close> is made to alias one of the other two.
  The objects live in a store indexed by addresses; \<open>next_ref\<close> is the next unused address.
\<close>

record 'a PhiloxStateTracker =
  heap :: "nat \<Rightarrow> 'a PhiloxState"
  next_ref :: nat
  running_state :: nat
  fwd_state :: nat
  bwd_state :: nat

definition new_PhiloxState :: "'a PhiloxStateTracker \<Rightarrow> nat \<times> 'a PhiloxStateTracker" where
  \<comment> \<open>\<^verbatim>\<open>PhiloxState()\<close>: a new object at an unused address\<close>
  "new_PhiloxState cls =
     (next_ref cls,
      cls\<lparr>heap := (heap cls)(next_ref cls := PhiloxState_init), next_ref := Suc (next_ref cls)\<rparr>)"

definition clear :: "'a PhiloxStateTracker \<Rightarrow> 'a PhiloxStateTracker" where
  "clear cls =
     (let (r, c1) = new_PhiloxState cls;
          (f, c2) = new_PhiloxState (c1\<lparr>running_state := r\<rparr>);
          (b, c3) = new_PhiloxState (c2\<lparr>fwd_state := f\<rparr>)
      in c3\<lparr>bwd_state := b\<rparr>)"

definition class_PhiloxStateTracker :: "'a PhiloxStateTracker" where
  \<comment> \<open>the state after the class body ran: three separate objects\<close>
  "class_PhiloxStateTracker =
     clear \<lparr>heap = (\<lambda>_. PhiloxState_init), next_ref = 0,
            running_state = 0, fwd_state = 0, bwd_state = 0\<rparr>"

definition mark_beginning_of_forward :: "'a PhiloxStateTracker \<Rightarrow> 'a PhiloxStateTracker" where
  "mark_beginning_of_forward cls = cls\<lparr>running_state := fwd_state cls\<rparr>"

definition mark_beginning_of_backward :: "'a PhiloxStateTracker \<Rightarrow> 'a PhiloxStateTracker" where
  "mark_beginning_of_backward cls = cls\<lparr>running_state := bwd_state cls\<rparr>"

definition mark_end_of_tracing :: "'a PhiloxStateTracker \<Rightarrow> 'a PhiloxStateTracker" where
  "mark_end_of_tracing cls = clear cls"

definition update_object ::
  "nat \<Rightarrow> ('a PhiloxState \<Rightarrow> 'a PhiloxState) \<Rightarrow> 'a PhiloxStateTracker \<Rightarrow> 'a PhiloxStateTracker" where
  \<comment> \<open>a method that mutates the object at address \<open>r\<close>\<close>
  "update_object r f cls = cls\<lparr>heap := (heap cls)(r := f (heap cls r))\<rparr>"

definition record_state ::
  "'a tensor \<Rightarrow> 'a tensor \<Rightarrow> string \<Rightarrow> 'a PhiloxStateTracker
     \<Rightarrow> (py_error + unit) \<times> 'a PhiloxStateTracker" where
  "record_state sd offset mode cls =
     (if mode = ''forward''
      then (Inr (), update_object (fwd_state cls) (PhiloxState_set_state sd offset 0) cls)
      else if mode = ''backward''
      then (Inr (), update_object (bwd_state cls) (PhiloxState_set_state sd offset 0) cls)
      else (Inl AssertionError, cls))"

definition get_state_as_tensor :: "'a::ring_1 PhiloxStateTracker \<Rightarrow> py_error + 'a tensor list" where
  "get_state_as_tensor cls = PhiloxState_get_state_as_tensor (heap cls (running_state cls))"

definition get_state_as_tuple ::
  "'a::ring_1 PhiloxStateTracker \<Rightarrow> py_error + ('a tensor \<times> 'a tensor)" where
  "get_state_as_tuple cls = PhiloxState_get_state_as_tuple (heap cls (running_state cls))"

definition set_state_from_tensor ::
  "'a tensor list \<Rightarrow> 'a PhiloxStateTracker \<Rightarrow> (py_error + unit) \<times> 'a PhiloxStateTracker" where
  "set_state_from_tensor x cls =
     (case PhiloxState_set_state_from_tensor x (heap cls (running_state cls)) of
        Inl err \<Rightarrow> (Inl err, cls)
      | Inr self \<Rightarrow> (Inr (), update_object (running_state cls) (\<lambda>_. self) cls))"

definition advance_offset :: "int \<Rightarrow> 'a PhiloxStateTracker \<Rightarrow> 'a PhiloxStateTracker" where
  "advance_offset consumed_offset cls =
     update_object (running_state cls) (PhiloxState_advance_offset consumed_offset) cls"

definition get_current_relative_offset :: "'a PhiloxStateTracker \<Rightarrow> int" where
  "get_current_relative_offset cls = relative_offset (heap cls (running_state cls))"

definition get_accumulated_offsets :: "'a PhiloxStateTracker \<Rightarrow> PhiloxTotalOffsets" where
  "get_accumulated_offsets cls =
     (let fwd_offset = relative_offset (heap cls (fwd_state cls));
          bwd_offset = relative_offset (heap cls (bwd_state cls))
      in \<lparr>total_fwd_offset = fwd_offset, total_bwd_offset = bwd_offset\<rparr>)"

text \<open>A caller of the tracker: any sequence of its methods, in any order.\<close>

datatype 'a tracker_call =
    Mark_beginning_of_forward
  | Mark_beginning_of_backward
  | Mark_end_of_tracing
  | Clear
  | Record_state "'a tensor" "'a tensor" string
  | Set_state_from_tensor "'a tensor list"
  | Advance_offset int

fun call :: "'a tracker_call \<Rightarrow> 'a PhiloxStateTracker \<Rightarrow> 'a PhiloxStateTracker" where
  "call Mark_beginning_of_forward cls = mark_beginning_of_forward cls"
| "call Mark_beginning_of_backward cls = mark_beginning_of_backward cls"
| "call Mark_end_of_tracing cls = mark_end_of_tracing cls"
| "call Clear cls = clear cls"
| "call (Record_state sd offset mode) cls = snd (record_state sd offset mode cls)"
| "call (Set_state_from_tensor x) cls = snd (set_state_from_tensor x cls)"
| "call (Advance_offset n) cls = advance_offset n cls"

definition calls :: "'a tracker_call list \<Rightarrow> 'a PhiloxStateTracker \<Rightarrow> 'a PhiloxStateTracker" where
  \<comment> \<open>the calls one after the other; a call that raises leaves the state as it was\<close>
  "calls cs cls = foldl (\<lambda>c x. call x c) cls cs"

definition fwd_object :: "'a PhiloxStateTracker \<Rightarrow> 'a PhiloxState" where
  "fwd_object cls = heap cls (fwd_state cls)"

definition bwd_object :: "'a PhiloxStateTracker \<Rightarrow> 'a PhiloxState" where
  "bwd_object cls = heap cls (bwd_state cls)"

section \<open>Registered decompositions\<close>

definition throw_if_philox_offset_did_not_advance ::
  "('x \<Rightarrow> 'a PhiloxStateTracker \<Rightarrow> (py_error + 'r) \<times> 'a PhiloxStateTracker)
     \<Rightarrow> 'x \<Rightarrow> 'a PhiloxStateTracker \<Rightarrow> (py_error + 'r) \<times> 'a PhiloxStateTracker" where
  \<comment> \<open>\<^verbatim>\<open>inner\<close>; an exception of \<^verbatim>\<open>fn\<close> propagates with the state \<^verbatim>\<open>fn\<close> left\<close>
  "throw_if_philox_offset_did_not_advance fn args cls =
     (let old_relative_offset = get_current_relative_offset cls;
          (out, cls') = fn args cls
      in case out of
           Inl err \<Rightarrow> (Inl err, cls')
         | Inr res \<Rightarrow>
             let new_relative_offset = get_current_relative_offset cls'
             in if old_relative_offset = new_relative_offset
                then (Inl (ValueError ''Philox seed offset did not advance after decomposition''), cls')
                else (Inr res, cls'))"

text \<open>
  A device argument is a \<^verbatim>\<open>torch.device\<close> object (kind and index) or, as the default
  \<^verbatim>\<open>"cpu"\<close> of \<^verbatim>\<open>rand\<close> is, a plain string.  Only the object has the attribute \<^verbatim>\<open>type\<close>.
\<close>

datatype py_device = Device string "int option" | Str string

fun device_type :: "py_device \<Rightarrow> py_error + string" where
  "device_type (Device kind index) = Inr kind"
| "device_type (Str s) = Inl (AttributeError ([CHR 0x27] @ ''str'' @ [CHR 0x27] @ '' object has no attribute '' @ [CHR 0x27] @ ''type'' @ [CHR 0x27]))"

fun truthy :: "py_device \<Rightarrow> bool" where
  "truthy (Device kind index) = True"
| "truthy (Str s) = (s \<noteq> [])"

definition or_default :: "py_device option \<Rightarrow> py_device \<Rightarrow> py_device" where
  \<comment> \<open>\<^verbatim>\<open>device or d\<close>\<close>
  "or_default device d =
     (case device of None \<Rightarrow> d | Some x \<Rightarrow> if truthy x then x else d)"

definition throw_on_non_cuda :: "py_device \<Rightarrow> py_error" where
  \<comment> \<open>never returns: the value is the exception raised\<close>
  "throw_on_non_cuda device =
     (case device_type device of
        Inl err \<Rightarrow> err
      | Inr kind \<Rightarrow> RuntimeError
          (''You are trying to functionalize a '' @ kind @ '' RNG operator but '' @ kind
           @ '' does not use Philox/counter-based PRNG. Therefore, functionalizing a '' @ kind
           @ '' RNG operator is not supported. We are discussing the possibility of a ''
           @ ''Philox-based RNG implementation for CPU.''))"

text \<open>
  What the decompositions call outside this file: the stride helper, the primitive
  \<^verbatim>\<open>torch.ops.prims.philox_rand\<close> (its result type \<open>'r\<close> is left open) and the properties
  of the current device.
\<close>

record ('a, 'r) torch_env =
  make_contiguous_strides_for :: "int list \<Rightarrow> py_error + int list"
  philox_rand ::
    "int list \<Rightarrow> 'a tensor \<Rightarrow> 'a tensor \<Rightarrow> int list \<Rightarrow> py_device \<Rightarrow> string \<Rightarrow> py_error + 'r"
  get_device_properties :: device_properties

record rand_args =
  shape :: "int list"
  dtype :: "string option"
  layout :: string
  device :: "py_device option"
  pin_memory :: bool

definition rand_fn ::
  "('a::ring_1, 'r) torch_env \<Rightarrow> rand_args \<Rightarrow> 'a PhiloxStateTracker
     \<Rightarrow> (py_error + 'r) \<times> 'a PhiloxStateTracker" where
  \<comment> \<open>the body of \<^verbatim>\<open>rand\<close>, before the decorator\<close>
  "rand_fn env args cls =
     (let dev = or_default (device args) (Str ''cpu'')
      in case device_type dev of
           Inl err \<Rightarrow> (Inl err, cls)
         | Inr kind \<Rightarrow>
            (if kind \<noteq> ''cuda'' then (Inl (throw_on_non_cuda dev), cls)
             else (case get_state_as_tuple cls of
                Inl err \<Rightarrow> (Inl err, cls)
              | Inr (sd, offset) \<Rightarrow>
                 (let dt = (case dtype args of None \<Rightarrow> ''float32'' | Some d \<Rightarrow> d)
                  in (case make_contiguous_strides_for env (shape args) of
                     Inl err \<Rightarrow> (Inl err, cls)
                   | Inr stride \<Rightarrow>
                      (case philox_rand env (shape args) sd offset stride dev dt of
                         Inl err \<Rightarrow> (Inl err, cls)
                       | Inr r \<Rightarrow>
                          (case rand_offset_calculator (get_device_properties env) (shape args) of
                             Inl err \<Rightarrow> (Inl err, cls)
                           | Inr n \<Rightarrow> (Inr r, advance_offset n cls))))))))"

definition rand ::
  "('a::ring_1, 'r) torch_env \<Rightarrow> rand_args \<Rightarrow> 'a PhiloxStateTracker
     \<Rightarrow> (py_error + 'r) \<times> 'a PhiloxStateTracker" where
  \<comment> \<open>the module-level name \<^verbatim>\<open>rand\<close>: the decorated function\<close>
  "rand env = throw_if_philox_offset_did_not_advance (rand_fn env)"

record like_tensor =
  x_shape :: "int list"
  x_stride :: "int list"
  x_device :: py_device
  x_dtype :: string

definition rand_like_fn ::
  "('a::ring_1, 'r) torch_env \<Rightarrow> like_tensor \<times> rand_args \<Rightarrow> 'a PhiloxStateTracker
     \<Rightarrow> (py_error + 'r) \<times> 'a PhiloxStateTracker" where
  \<comment> \<open>the body of \<^verbatim>\<open>rand_like\<close>; of \<open>rand_args\<close> it reads \<open>dtype\<close> and \<open>device\<close> only\<close>
  "rand_like_fn env xargs cls =
     (let x = fst xargs; args = snd xargs;
          dev = or_default (device args) (x_device x)
      in case device_type dev of
           Inl err \<Rightarrow> (Inl err, cls)
         | Inr kind \<Rightarrow>
            (if kind \<noteq> ''cuda'' then (Inl (throw_on_non_cuda dev), cls)
             else (let dt = (case dtype args of None \<Rightarrow> x_dtype x | Some d \<Rightarrow> d)
              in (case get_state_as_tuple cls of
                 Inl err \<Rightarrow> (Inl err, cls)
               | Inr (sd, offset) \<Rightarrow>
                  (case philox_rand env (x_shape x) sd offset (x_stride x) dev dt of
                     Inl err \<Rightarrow> (Inl err, cls)
                   | Inr r \<Rightarrow>
                      (case rand_offset_calculator (get_device_properties env) (x_shape x) of
                         Inl err \<Rightarrow> (Inl err, cls)
                       | Inr n \<Rightarrow> (Inr r, advance_offset n cls)))))))"

definition rand_like ::
  "('a::ring_1, 'r) torch_env \<Rightarrow> like_tensor \<times> rand_args \<Rightarrow> 'a PhiloxStateTracker
     \<Rightarrow> (py_error + 'r) \<times> 'a PhiloxStateTracker" where
  "rand_like env = throw_if_philox_offset_did_not_advance (rand_like_fn env)"

section \<open>RNGStateHelper\<close>

text \<open>
  The CUDA generator as this file sees it: whether a device is available, and the state
  buffer that \<^verbatim>\<open>torch.cuda.get_rng_state\<close> returns and \<^verbatim>\<open>torch.cuda.set_rng_state\<close>
  installs, a tensor of bytes.  An int64 tensor viewed as uint8 gives its eight bytes in
  the host's order, least significant first.
\<close>

record cuda =
  is_available :: bool
  rng_state :: "8 word list"

definition get_rng_state :: "cuda \<Rightarrow> 8 word list" where
  "get_rng_state c = rng_state c"

definition set_rng_state :: "8 word list \<Rightarrow> cuda \<Rightarrow> cuda" where
  "set_rng_state new_state c = c\<lparr>rng_state := new_state\<rparr>"

definition view_uint8 :: "64 word \<Rightarrow> 8 word list" where
  \<comment> \<open>\<^verbatim>\<open>t.reshape([1]).view(torch.uint8)\<close> of a one-element int64 tensor\<close>
  "view_uint8 w = map (\<lambda>i. ucast (drop_bit (8 * i) w)) [0..<8]"

definition int64_of_bytes :: "8 word list \<Rightarrow> 64 word" where
  \<comment> \<open>eight bytes read as one int64, least significant byte first\<close>
  "int64_of_bytes bs = word_of_int (horner_sum uint (2 ^ 8) bs)"

definition view_int64_first :: "8 word list \<Rightarrow> py_error + 64 word" where
  \<comment> \<open>\<^verbatim>\<open>bs.view(dtype=torch.int64)[0]\<close>: the view needs a whole number of 8-byte
      elements, the index a first element\<close>
  "view_int64_first bs =
     (if length bs mod 8 \<noteq> 0
      then Inl (RuntimeError ''size must be divisible by 8 to view as int64'')
      else if bs = [] then Inl IndexError
      else Inr (int64_of_bytes (take 8 bs)))"

definition get_torch_state_as_tuple ::
  "(64 word \<Rightarrow> 64 word) option \<Rightarrow> cuda \<Rightarrow> py_error + (64 word \<times> 64 word)" where
  \<comment> \<open>\<open>fake_mode\<close>, when given, is the tracing system's \<^verbatim>\<open>from_tensor\<close>\<close>
  "get_torch_state_as_tuple fake_mode c =
     (if \<not> is_available c then Inr (0, 0)
      else let state = get_rng_state c
           in bind_err (view_int64_first (take 8 (drop 800 state))) (\<lambda>sd.
              bind_err (view_int64_first (drop 808 state)) (\<lambda>offset.
                case fake_mode of
                  None \<Rightarrow> Inr (sd, offset)
                | Some from_tensor \<Rightarrow> Inr (from_tensor sd, from_tensor offset))))"

definition set_torch_state_tensor :: "64 word \<Rightarrow> 64 word \<Rightarrow> cuda \<Rightarrow> cuda" where
  "set_torch_state_tensor sd offset c =
     (let seed_portion = view_uint8 sd;
          offset_portion = view_uint8 offset;
          prefix = replicate 800 (- 1);
          new_state = prefix @ seed_portion @ offset_portion
      in set_rng_state new_state c)"

definition advance_torch_state :: "int \<Rightarrow> cuda \<Rightarrow> (py_error + unit) \<times> cuda" where
  "advance_torch_state rel c =
     (let state = get_rng_state c
      in case view_int64_first (take 8 (drop 800 state)) of
           Inl err \<Rightarrow> (Inl err, c)
         | Inr sd \<Rightarrow>
             (case view_int64_first (drop 808 state) of
                Inl err \<Rightarrow> (Inl err, c)
              | Inr offset \<Rightarrow>
                  let new_offset = offset + of_int rel
                  in (Inr (), set_torch_state_tensor sd new_offset c)))"

section \<open>What the specification says, and the callers it describes\<close>

definition OffsetCalculator_spec :: "device_properties \<Rightarrow> int \<Rightarrow> int" where
  \<comment> \<open>the specification's formula for the offset of one draw of \<open>n\<close> elements,
      in integer arithmetic, to be compared with \<open>rand_offset_calculator\<close>\<close>
  "OffsetCalculator_spec device_property n =
     (let block_size = 256;
          unroll = 4;
          engine_calls_per_block = 4;
          blocks_per_core = max_threads_per_multi_processor device_property div block_size;
          grid_size = min (- ((- n) div block_size))
                          (multi_processor_count device_property * blocks_per_core)
      in ((n - 1) div (block_size * grid_size * unroll) + 1) * engine_calls_per_block)"

definition float_val :: "py_float \<Rightarrow> real" where
  \<comment> \<open>the number a finite float stands for\<close>
  "float_val x = (case x of Finite m e \<Rightarrow> of_int m * 2 powi e | _ \<Rightarrow> 0)"

definition separate :: "'a PhiloxStateTracker \<Rightarrow> bool" where
  \<comment> \<open>the forward and the backward state are two objects\<close>
  "separate cls = (fwd_state cls \<noteq> bwd_state cls)"

text \<open>A sequence of draws, each through its registered (guarded) decomposition.\<close>

datatype draw = Rand rand_args | Rand_like like_tensor rand_args

fun draw_shape :: "draw \<Rightarrow> int list" where
  "draw_shape (Rand args) = shape args"
| "draw_shape (Rand_like x args) = x_shape x"

fun invoke :: "('a::ring_1, 'r) torch_env \<Rightarrow> draw \<Rightarrow> 'a PhiloxStateTracker
     \<Rightarrow> (py_error + 'r) \<times> 'a PhiloxStateTracker" where
  "invoke env (Rand args) cls = rand env args cls"
| "invoke env (Rand_like x args) cls = rand_like env (x, args) cls"

fun invoke_all :: "('a::ring_1, 'r) torch_env \<Rightarrow> draw list \<Rightarrow> 'a PhiloxStateTracker
     \<Rightarrow> (py_error + 'r list) \<times> 'a PhiloxStateTracker" where
  \<comment> \<open>the first draw that raises ends the sequence\<close>
  "invoke_all env [] cls = (Inr [], cls)"
| "invoke_all env (d # ds) cls =
     (case invoke env d cls of
        (Inl err, cls') \<Rightarrow> (Inl err, cls')
      | (Inr r, cls') \<Rightarrow>
          (case invoke_all env ds cls' of
             (Inl err, cls'') \<Rightarrow> (Inl err, cls'')
           | (Inr rs, cls'') \<Rightarrow> (Inr (r # rs), cls'')))"

text \<open>
  The inputs for which a draw is expected to go through: a cuda device object, a shape of
  1 to \<open>2 ^ 48\<close> elements, a device with at least one block, and (for \<^verbatim>\<open>rand\<close>) a stride
  helper that returns.  \<open>initialized\<close> says that the running state holds a seed and a base
  offset; \<open>draw_offset\<close> is the offset the calculator computes for a draw.
\<close>

fun is_cuda :: "py_device \<Rightarrow> bool" where
  "is_cuda (Device kind index) = (kind = ''cuda'')"
| "is_cuda (Str s) = False"

fun returns :: "'e + 'a \<Rightarrow> bool" where
  "returns (Inr v) = True"
| "returns (Inl err) = False"

definition usable_device :: "device_properties \<Rightarrow> bool" where
  "usable_device dp =
     (0 \<le> max_threads_per_multi_processor dp \<and> max_threads_per_multi_processor dp < 2 ^ 53
      \<and> 1 \<le> multi_processor_count dp * (max_threads_per_multi_processor dp div 256))"

definition in_range :: "int list \<Rightarrow> bool" where
  "in_range shp = (1 \<le> foldl (*) 1 shp \<and> foldl (*) 1 shp \<le> 2 ^ 48)"

fun drawable :: "('a::ring_1, 'r) torch_env \<Rightarrow> draw \<Rightarrow> bool" where
  "drawable env (Rand args) =
     (is_cuda (or_default (device args) (Str ''cpu'')) \<and> in_range (shape args)
      \<and> returns (make_contiguous_strides_for env (shape args)))"
| "drawable env (Rand_like x args) =
     (is_cuda (or_default (device args) (x_device x)) \<and> in_range (x_shape x))"

definition initialized :: "'a PhiloxStateTracker \<Rightarrow> bool" where
  "initialized cls =
     (numel (seed (heap cls (running_state cls))) \<noteq> 0
      \<and> numel (base_offset (heap cls (running_state cls))) \<noteq> 0)"

definition draw_offset :: "device_properties \<Rightarrow> draw \<Rightarrow> int" where
  "draw_offset dp d =
     (case rand_offset_calculator dp (draw_shape d) of Inr n \<Rightarrow> n | Inl err \<Rightarrow> 0)"

text \<open>
  A concrete environment for examples: a device with 108 multiprocessors of 2048 threads,
  row-major strides, and a primitive that returns its shape, seed and offset.
\<close>

definition a100 :: device_properties where
  "a100 = \<lparr>max_threads_per_multi_processor = 2048, multi_processor_count = 108\<rparr>"

fun row_major_strides :: "int list \<Rightarrow> int list" where
  "row_major_strides [] = []"
| "row_major_strides (d # ds) = prod_list ds # row_major_strides ds"

definition example_env :: "(int, int list \<times> int tensor \<times> int tensor) torch_env" where
  "example_env =
     \<lparr>make_contiguous_strides_for = (\<lambda>shape. Inr (row_major_strides shape)),
      philox_rand = (\<lambda>shape sd offset stride dev dt. Inr (shape, sd, offset)),
      get_device_properties = a100\<rparr>"

definition example_args :: "py_device option \<Rightarrow> rand_args" where
  "example_args dev =
     \<lparr>shape = [4, 4], dtype = None, layout = ''strided'', device = dev, pin_memory = False\<rparr>"

definition example_x :: like_tensor where
  "example_x = \<lparr>x_shape = [2, 3], x_stride = [3, 1],
                 x_device = Device ''cuda'' (Some 0), x_dtype = ''float32''\<rparr>"

definition example_forward :: "int PhiloxStateTracker" where
  "example_forward =
     snd (record_state (Scalar 42) (Scalar 7) ''forward''
            (mark_beginning_of_forward (clear class_PhiloxStateTracker)))"

section \<open>The offset calculator against the specification's formula\<close>

subsection \<open>Rounding to binary64\<close>

lemma round_half_even_lower:
  assumes "0 < d" and "j * d \<le> n"
  shows "j \<le> round_half_even n d"
proof -
  have "(j * d) div d \<le> n div d"
    using assms by (intro zdiv_mono1)
  then have "j \<le> n div d"
    using assms(1) by simp
  then show ?thesis
    by (simp add: round_half_even_def Let_def)
qed

lemma round_half_even_upper:
  assumes "0 < d" and "n \<le> j * d"
  shows "round_half_even n d \<le> j"
proof -
  have "n div d \<le> (j * d) div d"
    using assms by (intro zdiv_mono1)
  then have q: "n div d \<le> j"
    using assms(1) by simp
  have "n div d < j" if "0 < n mod d"
  proof -
    have "n = (n div d) * d + n mod d" by simp
    with that have "(n div d) * d < j * d" using assms(2) by linarith
    then show ?thesis using assms(1) by (simp add: mult_less_cancel_right)
  qed
  with q show ?thesis
    using assms(1) by (auto simp: round_half_even_def Let_def)
qed

lemma py_int_of_float_floor:
  assumes "0 \<le> m"
  shows "py_int_of_float (Finite m s) = Inr \<lfloor>float_val (Finite m s)\<rfloor>"
proof (cases "0 \<le> s")
  case True
  then have "(2::real) powi s = 2 ^ nat s"
    by (simp add: power_int_def)
  then have "float_val (Finite m s) = of_int (m * 2 ^ nat s)"
    by (simp add: float_val_def)
  then have "\<lfloor>float_val (Finite m s)\<rfloor> = m * 2 ^ nat s"
    by (simp only: floor_of_int)
  then show ?thesis using True by simp
next
  case False
  then have "(2::real) powi s = 1 / 2 ^ nat (- s)"
    by (simp add: power_int_def field_simps)
  then have "float_val (Finite m s) = of_int m / of_int (2 ^ nat (- s))"
    by (simp add: float_val_def)
  then have "\<lfloor>float_val (Finite m s)\<rfloor> = m div 2 ^ nat (- s)"
    by (simp only: floor_divide_of_int_eq)
  then show ?thesis using False assms by simp
qed

lemma scaled_ratio:
  assumes "0 < b"
  shows "real_of_int (a * 2 ^ nat (- s)) / real_of_int (b * 2 ^ nat s)
           = (real_of_int a / real_of_int b) * 2 powi (- s)"
proof (cases "0 \<le> s")
  case True
  then show ?thesis by (simp add: power_int_def field_simps)
next
  case False
  then show ?thesis by (simp add: power_int_def field_simps)
qed

lemma bitlen_powi_bounds:
  assumes "0 < a"
  shows "2 powi (bitlen a - 1) \<le> real_of_int a" and "real_of_int a < 2 powi (bitlen a)"
proof -
  from assms have b1: "1 \<le> bitlen a"
    by (simp add: bitlen_alt_def)
  from bitlen_bounds [OF assms] have
    l: "2 ^ nat (bitlen a - 1) \<le> a" and u: "a < 2 ^ nat (bitlen a)" by simp_all
  have "real_of_int (2 ^ nat (bitlen a - 1)) \<le> real_of_int a"
    using l by (simp only: of_int_le_iff)
  then show "2 powi (bitlen a - 1) \<le> real_of_int a"
    using b1 by (simp add: power_int_nonneg_exp)
  have "real_of_int a < real_of_int (2 ^ nat (bitlen a))"
    using u by (simp only: of_int_less_iff)
  then show "real_of_int a < 2 powi (bitlen a)"
    using b1 by (simp add: power_int_nonneg_exp)
qed

lemma floor_log2_ratio_bounds:
  assumes "0 < a" and "0 < b"
  shows "2 powi (floor_log2_ratio a b) \<le> real_of_int a / real_of_int b"
    and "real_of_int a / real_of_int b < 2 powi (floor_log2_ratio a b + 1)"
proof -
  define d where "d = bitlen a - bitlen b"
  let ?x = "real_of_int a / real_of_int b"
  have rb: "0 < real_of_int b" using assms by simp
  have cond: "b * 2 ^ nat d \<le> a * 2 ^ nat (- d) \<longleftrightarrow> 2 powi d \<le> ?x"
  proof -
    have "b * 2 ^ nat d \<le> a * 2 ^ nat (- d)
        \<longleftrightarrow> real_of_int (b * 2 ^ nat d) \<le> real_of_int (a * 2 ^ nat (- d))"
      by (simp only: of_int_le_iff)
    also have "\<dots> \<longleftrightarrow> 1 \<le> real_of_int (a * 2 ^ nat (- d)) / real_of_int (b * 2 ^ nat d)"
      using rb by (simp add: field_simps)
    also have "\<dots> \<longleftrightarrow> 1 \<le> ?x * 2 powi (- d)"
      using assms(2) by (simp only: scaled_ratio)
    also have "?x * 2 powi (- d) = ?x / 2 powi d"
      by (simp add: power_int_minus divide_inverse)
    also have "1 \<le> ?x / 2 powi d \<longleftrightarrow> 2 powi d \<le> ?x"
      by (subst pos_le_divide_eq) simp_all
    finally show ?thesis .
  qed
  have lo: "2 powi (d - 1) < ?x"
  proof -
    have "2 powi (d - 1) * real_of_int b < 2 powi (d - 1) * 2 powi (bitlen b)"
      using bitlen_powi_bounds(2) [OF assms(2)] by simp
    also have "\<dots> = 2 powi (bitlen a - 1)"
      by (simp add: d_def flip: power_int_add)
    also have "\<dots> \<le> real_of_int a"
      using bitlen_powi_bounds(1) [OF assms(1)] .
    finally show ?thesis using rb by (simp add: field_simps)
  qed
  have hi: "?x < 2 powi (d + 1)"
  proof -
    have "real_of_int a < 2 powi (bitlen a)"
      using bitlen_powi_bounds(2) [OF assms(1)] .
    also have "\<dots> = 2 powi (d + 1) * 2 powi (bitlen b - 1)"
      by (simp add: d_def flip: power_int_add)
    also have "\<dots> \<le> 2 powi (d + 1) * real_of_int b"
      using bitlen_powi_bounds(1) [OF assms(2)] by simp
    finally show ?thesis using rb by (simp add: field_simps)
  qed
  show "2 powi (floor_log2_ratio a b) \<le> ?x"
    using cond lo by (auto simp: floor_log2_ratio_def Let_def simp flip: d_def)
  show "?x < 2 powi (floor_log2_ratio a b + 1)"
    using cond hi by (auto simp: floor_log2_ratio_def Let_def simp flip: d_def)
qed

lemma round_half_even_lower_real:
  assumes "0 < d" and "real_of_int j \<le> real_of_int n / real_of_int d"
  shows "j \<le> round_half_even n d"
proof -
  from assms have "real_of_int j * real_of_int d \<le> real_of_int n"
    by (simp add: pos_le_divide_eq)
  then have "real_of_int (j * d) \<le> real_of_int n" by simp
  then have "j * d \<le> n" by (simp only: of_int_le_iff)
  with assms(1) show ?thesis by (rule round_half_even_lower)
qed

lemma round_half_even_upper_real:
  assumes "0 < d" and "real_of_int n / real_of_int d \<le> real_of_int j"
  shows "round_half_even n d \<le> j"
proof -
  from assms have "real_of_int n \<le> real_of_int j * real_of_int d"
    by (simp add: pos_divide_le_eq)
  then have "real_of_int n \<le> real_of_int (j * d)" by simp
  then have "n \<le> j * d" by (simp only: of_int_le_iff)
  with assms(1) show ?thesis by (rule round_half_even_upper)
qed

lemma two_powi_add: "(2::real) powi (i + j) = 2 powi i * 2 powi j"
  by (simp add: power_int_add)

lemma round_to_double_normal:
  assumes "0 < a" and "0 < b"
    and "- 1022 \<le> floor_log2_ratio a b" and "floor_log2_ratio a b \<le> 1022"
  shows "\<exists>m. round_to_double a b = Finite m (floor_log2_ratio a b - 52)
           \<and> m = round_half_even (a * 2 ^ nat (- (floor_log2_ratio a b - 52)))
                   (b * 2 ^ nat (floor_log2_ratio a b - 52))
           \<and> 2 ^ 52 \<le> m \<and> m \<le> 2 ^ 53"
proof -
  define e where "e = floor_log2_ratio a b"
  define s where "s = e - 52"
  define N where "N = a * 2 ^ nat (- s)"
  define Dn where "Dn = b * 2 ^ nat s"
  define m where "m = round_half_even N Dn"
  let ?x = "real_of_int a / real_of_int b"
  have Dn: "0 < Dn" using assms(2) by (simp add: Dn_def)
  have ratio: "real_of_int N / real_of_int Dn = ?x * 2 powi (- s)"
    unfolding N_def Dn_def using assms(2) by (rule scaled_ratio)
  have xl: "2 powi e \<le> ?x" and xu: "?x < 2 powi (e + 1)"
    using floor_log2_ratio_bounds [OF assms(1,2)] by (simp_all add: e_def)
  have "2 powi e * 2 powi (- s) \<le> ?x * 2 powi (- s)"
    using xl by (intro mult_right_mono) simp_all
  moreover have "(2::real) powi e * 2 powi (- s) = 2 ^ 52"
    by (simp add: s_def flip: two_powi_add)
  ultimately have "real_of_int (2 ^ 52) \<le> real_of_int N / real_of_int Dn"
    by (simp add: ratio)
  then have lo: "2 ^ 52 \<le> m"
    unfolding m_def using Dn by (intro round_half_even_lower_real)
  have "?x * 2 powi (- s) \<le> 2 powi (e + 1) * 2 powi (- s)"
    using xu by (intro mult_right_mono) simp_all
  moreover have "(2::real) powi (e + 1) * 2 powi (- s) = 2 ^ 53"
    by (simp add: s_def flip: two_powi_add)
  ultimately have "real_of_int N / real_of_int Dn \<le> real_of_int (2 ^ 53)"
    by (simp add: ratio)
  then have hi: "m \<le> 2 ^ 53"
    unfolding m_def using Dn by (intro round_half_even_upper_real)
  have "max e (- 1022) - 52 = s"
    using assms(3) by (simp add: s_def e_def)
  moreover have "s < 971"
    using assms(4) by (simp add: s_def e_def)
  ultimately have "round_to_double a b = Finite m s"
    using assms(1)
    by (simp add: round_to_double_def Let_def m_def N_def Dn_def flip: e_def)
  with lo hi show ?thesis
    by (simp add: m_def N_def Dn_def s_def e_def)
qed

lemma two_powi_cancel: "x * 2 powi s * 2 powi (- s) = (x::real)"
proof -
  have "(2::real) powi s * 2 powi (- s) = 2 powi (s + - s)"
    by (simp only: two_powi_add)
  then have "(2::real) powi s * 2 powi (- s) = 1" by simp
  then show ?thesis by (simp add: mult.assoc)
qed

lemma two_powi_52: "(2::real) powi e = 2 ^ 52 * 2 powi (e - 52)"
proof -
  have "(2::real) powi e = 2 powi (52 + (e - 52))" by simp
  also have "\<dots> = 2 powi 52 * 2 powi (e - 52)" by (simp only: two_powi_add)
  finally show ?thesis by simp
qed

lemma representable_scaled:
  assumes "0 < M" and "M < 2 ^ 53" and "2 powi e \<le> real_of_int M * 2 powi S"
  shows "\<exists>j. real_of_int M * 2 powi S = real_of_int j * 2 powi (e - 52)"
proof -
  have "real_of_int M < real_of_int (2 ^ 53)"
    using assms(2) by (simp only: of_int_less_iff)
  then have "real_of_int M * 2 powi S < 2 ^ 53 * 2 powi S"
    by (intro mult_strict_right_mono) simp_all
  also have "\<dots> = 2 powi (53 + S)"
    by (simp add: two_powi_add)
  finally have "(2::real) powi e < 2 powi (53 + S)"
    using assms(3) by simp
  have "e < 53 + S"
  proof (rule ccontr)
    assume "\<not> e < 53 + S"
    then have "53 + S \<le> e" by simp
    then have "(2::real) powi (53 + S) \<le> 2 powi e"
      by (intro power_int_increasing) simp_all
    with \<open>(2::real) powi e < 2 powi (53 + S)\<close> show False by simp
  qed
  then have S: "0 \<le> S - (e - 52)" by simp
  have "(2::real) powi S = 2 powi ((S - (e - 52)) + (e - 52))" by simp
  also have "\<dots> = 2 powi (S - (e - 52)) * 2 powi (e - 52)" by (simp only: two_powi_add)
  finally have "real_of_int M * 2 powi S = real_of_int M * (2 powi (S - (e - 52)) * 2 powi (e - 52))"
    by simp
  also have "(2::real) powi (S - (e - 52)) = real_of_int (2 ^ nat (S - (e - 52)))"
    using S by (simp add: power_int_nonneg_exp)
  finally have "real_of_int M * 2 powi S
      = real_of_int (M * 2 ^ nat (S - (e - 52))) * 2 powi (e - 52)"
    by simp
  then show ?thesis by blast
qed

lemma round_to_double_lower:
  assumes "0 < a" and "0 < b"
    and "- 1022 \<le> floor_log2_ratio a b" and "floor_log2_ratio a b \<le> 1022"
    and "0 < M" and "M < 2 ^ 53"
    and "real_of_int M * 2 powi S \<le> real_of_int a / real_of_int b"
  shows "real_of_int M * 2 powi S \<le> float_val (round_to_double a b)"
proof -
  define e where "e = floor_log2_ratio a b"
  define s where "s = e - 52"
  let ?x = "real_of_int a / real_of_int b"
  let ?r = "real_of_int M * 2 powi S"
  from round_to_double_normal [OF assms(1-4)] obtain m where
    f: "round_to_double a b = Finite m s"
    and m: "m = round_half_even (a * 2 ^ nat (- s)) (b * 2 ^ nat s)"
    and lo: "2 ^ 52 \<le> m"
    by (auto simp: s_def e_def)
  have v: "float_val (round_to_double a b) = real_of_int m * 2 powi s"
    by (simp add: f float_val_def)
  show ?thesis
  proof (cases "2 powi e \<le> ?r")
    case True
    from representable_scaled [OF assms(5,6) True] obtain j where
      j: "?r = real_of_int j * 2 powi s" by (auto simp: s_def)
    have "real_of_int j = ?r * 2 powi (- s)"
      by (simp only: j two_powi_cancel)
    also have "\<dots> \<le> ?x * 2 powi (- s)"
      using assms(7) by (intro mult_right_mono) simp_all
    also have "\<dots> = real_of_int (a * 2 ^ nat (- s)) / real_of_int (b * 2 ^ nat s)"
      using assms(2) by (simp only: scaled_ratio)
    finally have "j \<le> m"
      unfolding m using assms(2) by (intro round_half_even_lower_real) simp_all
    then have "real_of_int j * 2 powi s \<le> real_of_int m * 2 powi s"
      by (intro mult_right_mono) simp_all
    then show ?thesis by (simp add: v j)
  next
    case False
    then have "?r < 2 powi e" by simp
    also have "\<dots> = 2 ^ 52 * 2 powi s"
      unfolding s_def by (rule two_powi_52)
    also have "\<dots> \<le> real_of_int m * 2 powi s"
    proof -
      have "real_of_int (2 ^ 52) \<le> real_of_int m"
        using lo by (simp only: of_int_le_iff)
      then show ?thesis by (intro mult_right_mono) simp_all
    qed
    finally show ?thesis by (simp add: v)
  qed
qed

lemma round_to_double_upper:
  assumes "0 < a" and "0 < b"
    and "- 1022 \<le> floor_log2_ratio a b" and "floor_log2_ratio a b \<le> 1022"
    and "0 < M" and "M < 2 ^ 53"
    and "real_of_int a / real_of_int b \<le> real_of_int M * 2 powi S"
  shows "float_val (round_to_double a b) \<le> real_of_int M * 2 powi S"
proof -
  define e where "e = floor_log2_ratio a b"
  define s where "s = e - 52"
  let ?x = "real_of_int a / real_of_int b"
  let ?r = "real_of_int M * 2 powi S"
  from round_to_double_normal [OF assms(1-4)] obtain m where
    f: "round_to_double a b = Finite m s"
    and m: "m = round_half_even (a * 2 ^ nat (- s)) (b * 2 ^ nat s)"
    and hi: "m \<le> 2 ^ 53"
    by (auto simp: s_def e_def)
  have v: "float_val (round_to_double a b) = real_of_int m * 2 powi s"
    by (simp add: f float_val_def)
  have xl: "2 powi e \<le> ?x"
    using floor_log2_ratio_bounds(1) [OF assms(1,2)] by (simp add: e_def)
  with assms(7) have "2 powi e \<le> ?r" by simp
  from representable_scaled [OF assms(5,6) this] obtain j where
    j: "?r = real_of_int j * 2 powi s" by (auto simp: s_def)
  have "real_of_int (a * 2 ^ nat (- s)) / real_of_int (b * 2 ^ nat s) = ?x * 2 powi (- s)"
    using assms(2) by (simp only: scaled_ratio)
  also have "\<dots> \<le> ?r * 2 powi (- s)"
    using assms(7) by (intro mult_right_mono) simp_all
  also have "\<dots> = real_of_int j"
    by (simp only: j two_powi_cancel)
  finally have "m \<le> j"
    unfolding m using assms(2) by (intro round_half_even_upper_real) simp_all
  then have "real_of_int m * 2 powi s \<le> real_of_int j * 2 powi s"
    by (intro mult_right_mono) simp_all
  then show ?thesis by (simp add: v j)
qed

lemma floor_log2_ratio_range:
  assumes "0 < a" and "0 < b"
    and "2 powi L \<le> real_of_int a / real_of_int b"
    and "real_of_int a / real_of_int b < 2 powi U"
  shows "L \<le> floor_log2_ratio a b" and "floor_log2_ratio a b < U"
proof -
  let ?e = "floor_log2_ratio a b"
  note b = floor_log2_ratio_bounds [OF assms(1,2)]
  show "L \<le> ?e"
  proof (rule ccontr)
    assume "\<not> L \<le> ?e"
    then have "?e + 1 \<le> L" by simp
    then have "(2::real) powi (?e + 1) \<le> 2 powi L"
      by (intro power_int_increasing) simp_all
    with b(2) assms(3) show False by simp
  qed
  show "?e < U"
  proof (rule ccontr)
    assume "\<not> ?e < U"
    then have "U \<le> ?e" by simp
    then have "(2::real) powi U \<le> 2 powi ?e"
      by (intro power_int_increasing) simp_all
    with b(1) assms(4) show False by simp
  qed
qed

lemma float_of_ratio_pos:
  assumes "0 < a" and "0 < b"
  shows "float_of_ratio a b = round_to_double a b"
  using assms by (simp add: float_of_ratio_def)

lemma py_float_of_int_1: "py_float_of_int 1 = Inr (Finite (2 ^ 52) (- 52))"
  by code_simp

lemma float_add_one:
  assumes "0 \<le> m"
  shows "\<exists>A B. 0 < A \<and> 0 < B
     \<and> float_add (Finite m s) (Finite (2 ^ 52) (- 52)) = round_to_double A B
     \<and> real_of_int A / real_of_int B = real_of_int m * 2 powi s + 1"
proof -
  define e0 where "e0 = min s (- 52)"
  define nn where "nn = m * 2 ^ nat (s - e0) + 2 ^ 52 * 2 ^ nat (- 52 - e0)"
  define A where "A = nn * 2 ^ nat e0"
  define B :: int where "B = 2 ^ nat (- e0)"
  have e0: "e0 \<le> - 52" "e0 \<le> s" by (simp_all add: e0_def)
  have "0 < (2::int) ^ 52 * 2 ^ nat (- 52 - e0)" by simp
  moreover have "0 \<le> m * 2 ^ nat (s - e0)" using assms by simp
  ultimately have nn: "0 < nn" unfolding nn_def by linarith
  have A: "A = nn" using e0 by (simp add: A_def)
  have B: "0 < B" by (simp add: B_def)
  have 1: "float_add (Finite m s) (Finite (2 ^ 52) (- 52)) = float_of_ratio A B"
    by (simp add: Let_def e0_def nn_def A_def B_def)
  have p1: "real_of_int (2 ^ nat (s - e0)) = 2 powi (s - e0)"
    using e0 by (simp add: power_int_nonneg_exp)
  have p2: "real_of_int (2 ^ nat (- 52 - e0)) = 2 powi (- 52 - e0)"
    using e0 by (simp add: power_int_nonneg_exp)
  have p3: "real_of_int B = 2 powi (- e0)"
    using e0 by (simp add: B_def power_int_nonneg_exp)
  have "real_of_int A / real_of_int B = real_of_int nn * 2 powi e0"
    by (simp add: A p3 power_int_minus divide_inverse)
  also have "real_of_int nn = real_of_int m * 2 powi (s - e0) + 2 ^ 52 * 2 powi (- 52 - e0)"
    unfolding nn_def by (simp add: p1 p2 del: of_int_power)
  also have "\<dots> * 2 powi e0
      = real_of_int m * (2 powi (s - e0) * 2 powi e0) + 2 powi 52 * (2 powi (- 52 - e0) * 2 powi e0)"
    by (simp add: algebra_simps)
  also have "(2::real) powi (s - e0) * 2 powi e0 = 2 powi s"
    by (simp flip: two_powi_add)
  also have "(2::real) powi (- 52 - e0) * 2 powi e0 = 2 powi (- 52)"
    by (simp only: flip: two_powi_add) simp
  also have "(2::real) powi 52 * 2 powi (- 52) = 1"
    by simp
  finally have v: "real_of_int A / real_of_int B = real_of_int m * 2 powi s + 1" .
  from nn A have "0 < A" by simp
  with B 1 v show ?thesis
    by (auto simp: float_of_ratio_pos)
qed

lemma round_to_double_value:
  assumes "0 < a" and "0 < b"
    and "2 powi L \<le> real_of_int a / real_of_int b" and "- 1022 \<le> L"
    and "real_of_int a / real_of_int b < 2 powi U" and "U \<le> 1023"
  shows "\<exists>m s. round_to_double a b = Finite m s \<and> 0 \<le> m
    \<and> (\<forall>M S. 0 < M \<and> M < 2 ^ 53 \<and> real_of_int M * 2 powi S \<le> real_of_int a / real_of_int b
          \<longrightarrow> real_of_int M * 2 powi S \<le> float_val (Finite m s))
    \<and> (\<forall>M S. 0 < M \<and> M < 2 ^ 53 \<and> real_of_int a / real_of_int b \<le> real_of_int M * 2 powi S
          \<longrightarrow> float_val (Finite m s) \<le> real_of_int M * 2 powi S)"
proof -
  from floor_log2_ratio_range [OF assms(1,2,3,5)] assms(4,6)
  have r: "- 1022 \<le> floor_log2_ratio a b" "floor_log2_ratio a b \<le> 1022" by simp_all
  from round_to_double_normal [OF assms(1,2) r] obtain m where
    f: "round_to_double a b = Finite m (floor_log2_ratio a b - 52)" and m: "2 ^ 52 \<le> m"
    by blast
  from m have "0 \<le> m" by simp
  with f round_to_double_lower [OF assms(1,2) r] round_to_double_upper [OF assms(1,2) r]
  show ?thesis by (metis (no_types, lifting))
qed

lemma truediv_256_int:
  assumes "0 \<le> a" and "a < 2 ^ 53"
  shows "bind_err (py_truediv a 256) py_int_of_float = Inr (a div 256)"
proof (cases "a = 0")
  case True
  then show ?thesis
    by (simp add: py_truediv_def float_of_ratio_def round_to_double_def bind_err_def)
next
  case False
  with assms have a: "0 < a" by simp
  let ?x = "real_of_int a / real_of_int 256"
  have "1 \<le> real_of_int a" using a by simp
  then have l: "2 powi (- 8) \<le> ?x" by simp
  have "real_of_int a < real_of_int (2 ^ 53)"
    using assms(2) by (simp only: of_int_less_iff)
  then have u: "?x < 2 powi 45" by simp
  from round_to_double_value [OF a _ l _ u] obtain m s where
    f: "round_to_double a 256 = Finite m s" and m: "0 \<le> m"
    and lo: "\<And>M S. 0 < M \<Longrightarrow> M < 2 ^ 53 \<Longrightarrow> real_of_int M * 2 powi S \<le> ?x
          \<Longrightarrow> real_of_int M * 2 powi S \<le> float_val (Finite m s)"
    and hi: "\<And>M S. 0 < M \<Longrightarrow> M < 2 ^ 53 \<Longrightarrow> ?x \<le> real_of_int M * 2 powi S
          \<Longrightarrow> float_val (Finite m s) \<le> real_of_int M * 2 powi S"
    by auto
  have x: "real_of_int a * 2 powi (- 8) = ?x" by simp
  have "float_val (Finite m s) = ?x"
    using lo [of a "- 8"] hi [of a "- 8"] a assms(2) x by simp
  then have "\<lfloor>float_val (Finite m s)\<rfloor> = a div 256"
    by (simp only: floor_divide_of_int_eq)
  moreover have "py_truediv a 256 = Inr (Finite m s)"
    using a f by (simp add: py_truediv_def float_of_ratio_pos)
  ultimately show ?thesis
    using m by (simp add: bind_err_def py_int_of_float_floor del: py_int_of_float.simps)
qed

lemma powi_neg_nat: "(2::real) powi (- int t) = 1 / 2 ^ t"
  by (simp add: power_int_minus divide_inverse)

lemma below_next_integer:
  fixes k :: int
  shows "(real_of_int ((k + 1) * 2 ^ t - 1)) * 2 powi (- int t) = real_of_int k + 1 - 1 / 2 ^ t"
  by (simp add: powi_neg_nat field_simps)

lemma quotient_below_next:
  assumes "0 < D" and "D \<le> 2 ^ t"
  shows "real_of_int n / real_of_int D \<le> real_of_int (n div D) + 1 - 1 / 2 ^ t"
proof -
  have "n mod D \<le> D - 1" using assms(1) by simp
  moreover have "n = (n div D) * D + n mod D" by simp
  ultimately have "n \<le> (n div D) * D + D - 1" by linarith
  then have "real_of_int n \<le> real_of_int ((n div D) * D + D - 1)"
    by (simp only: of_int_le_iff)
  then have "real_of_int n / real_of_int D
      \<le> (real_of_int (n div D) * real_of_int D + real_of_int D - 1) / real_of_int D"
    using assms(1) by (simp add: divide_right_mono)
  also have "\<dots> = real_of_int (n div D) + 1 - 1 / real_of_int D"
    using assms(1) by (simp add: field_simps)
  also have "\<dots> \<le> real_of_int (n div D) + 1 - 1 / 2 ^ t"
  proof -
    have "real_of_int D \<le> real_of_int (2 ^ t)"
      using assms(2) by (simp only: of_int_le_iff)
    then have "1 / 2 ^ t \<le> 1 / real_of_int D"
      using assms(1) by (simp add: frac_le)
    then show ?thesis by simp
  qed
  finally show ?thesis .
qed

lemma quotient_above_floor:
  assumes "0 < D"
  shows "real_of_int (n div D) \<le> real_of_int n / real_of_int D"
proof -
  have "real_of_int (n div D) = real_of_int \<lfloor>real_of_int n / real_of_int D\<rfloor>"
    by (simp only: floor_divide_of_int_eq)
  then show ?thesis by simp
qed

lemma truediv_value:
  assumes "0 \<le> n" and "0 < D" and "D \<le> 2 ^ t" and "(n div D + 2) * 2 ^ t \<le> 2 ^ 53"
  shows "\<exists>m s. py_truediv n D = Inr (Finite m s) \<and> 0 \<le> m
     \<and> real_of_int (n div D) \<le> float_val (Finite m s)
     \<and> float_val (Finite m s) \<le> real_of_int (n div D) + 1 - 1 / 2 ^ t"
proof (cases "n = 0")
  case True
  have "py_truediv 0 D = Inr (Finite 0 0)"
    using assms(2) by (simp add: py_truediv_def float_of_ratio_def round_to_double_def)
  moreover have "float_val (Finite 0 0) = 0" by (simp add: float_val_def)
  moreover have "(1::real) / 2 ^ t \<le> 1" by simp
  ultimately show ?thesis using True by simp
next
  case False
  with assms(1) have n: "0 < n" by simp
  define k where "k = n div D"
  have k0: "0 \<le> k" using n assms(2) by (simp add: k_def pos_imp_zdiv_nonneg_iff)
  let ?x = "real_of_int n / real_of_int D"
  have step: "(k + 1) * 2 ^ t + 2 ^ t \<le> (2::int) ^ 53"
    using assms(4) by (simp add: k_def algebra_simps)
  have pt: "(1::int) \<le> 2 ^ t" by simp
  have t53: "t \<le> 53"
  proof -
    define P where "P = (k + 1) * 2 ^ t"
    define Q :: int where "Q = 2 ^ t"
    have "0 \<le> P" using k0 by (simp add: P_def)
    moreover have "P + Q \<le> 2 ^ 53" using step by (simp add: P_def Q_def)
    ultimately have "Q \<le> 2 ^ 53" by linarith
    then have le: "(2::int) ^ t \<le> 2 ^ 53" by (simp only: Q_def)
    have "(1::int) < 2" by simp
    from power_le_imp_le_exp [OF this le] show ?thesis .
  qed
  have k53: "k + 1 < 2 ^ 53"
  proof -
    define P where "P = (k + 1) * 2 ^ t"
    define Q :: int where "Q = 2 ^ t"
    have "(k + 1) * 1 \<le> (k + 1) * 2 ^ t"
      using k0 pt by (intro mult_left_mono) simp_all
    then have 1: "k + 1 \<le> P" by (simp add: P_def)
    have 2: "P + Q \<le> 2 ^ 53" using step by (simp add: P_def Q_def)
    have 3: "1 \<le> Q" by (simp add: Q_def)
    from 1 2 3 show ?thesis by linarith
  qed
  have xl: "2 powi (- int t) \<le> ?x"
  proof -
    have "1 / 2 ^ t \<le> 1 / real_of_int D"
    proof -
      have "real_of_int D \<le> real_of_int (2 ^ t)"
        using assms(3) by (simp only: of_int_le_iff)
      then show ?thesis using assms(2) by (simp add: frac_le)
    qed
    also have "\<dots> \<le> ?x"
      using n assms(2) by (simp add: divide_right_mono)
    finally show ?thesis by (simp add: powi_neg_nat)
  qed
  have xk: "real_of_int k \<le> ?x"
    unfolding k_def using assms(2) by (rule quotient_above_floor)
  have xu: "?x \<le> real_of_int k + 1 - 1 / 2 ^ t"
    unfolding k_def using assms(2,3) by (rule quotient_below_next)
  have "real_of_int (k + 1) < real_of_int (2 ^ 53)"
    using k53 by (simp only: of_int_less_iff)
  moreover have "(0::real) < 1 / 2 ^ t" by simp
  ultimately have "?x < real_of_int (2 ^ 53)"
    using xu by linarith
  then have xu53: "?x < 2 powi 53" by simp
  have lt: "- 1022 \<le> - int t" using t53 by simp
  from round_to_double_value [OF n assms(2) xl lt xu53] obtain m s where
    f: "round_to_double n D = Finite m s" and m: "0 \<le> m"
    and lo: "\<And>M S. 0 < M \<Longrightarrow> M < 2 ^ 53 \<Longrightarrow> real_of_int M * 2 powi S \<le> ?x
          \<Longrightarrow> real_of_int M * 2 powi S \<le> float_val (Finite m s)"
    and hi: "\<And>M S. 0 < M \<Longrightarrow> M < 2 ^ 53 \<Longrightarrow> ?x \<le> real_of_int M * 2 powi S
          \<Longrightarrow> float_val (Finite m s) \<le> real_of_int M * 2 powi S"
    by auto
  have d: "py_truediv n D = Inr (Finite m s)"
    using n assms(2) f by (simp add: py_truediv_def float_of_ratio_pos)
  have lower: "real_of_int k \<le> float_val (Finite m s)"
  proof (cases "k = 0")
    case True
    then show ?thesis using m by (simp add: float_val_def)
  next
    case False
    with k0 have "0 < k" by simp
    from lo [of k 0, OF this] k53 xk show ?thesis by simp
  qed
  have M0: "0 < (k + 1) * 2 ^ t - 1"
  proof (cases "k = 0")
    case True
    have "n = (n div D) * D + n mod D" by simp
    with True have "n = n mod D" by (simp add: k_def)
    moreover have "n mod D < D" using assms(2) by simp
    ultimately have "n < D" by simp
    with n have "2 \<le> D" by simp
    with assms(3) have "(2::int) \<le> 2 ^ t" by simp
    with True show ?thesis by simp
  next
    case False
    with k0 have "2 \<le> k + 1" by simp
    with pt have "2 * 1 \<le> (k + 1) * 2 ^ t"
      by (intro mult_mono) simp_all
    then show ?thesis by simp
  qed
  have M53: "(k + 1) * 2 ^ t - 1 < 2 ^ 53"
  proof -
    define P where "P = (k + 1) * 2 ^ t"
    define Q :: int where "Q = 2 ^ t"
    have 2: "P + Q \<le> 2 ^ 53" using step by (simp add: P_def Q_def)
    have 3: "1 \<le> Q" by (simp add: Q_def)
    from 2 3 have "P - 1 < 2 ^ 53" by linarith
    then show ?thesis by (simp add: P_def)
  qed
  have "float_val (Finite m s) \<le> real_of_int ((k + 1) * 2 ^ t - 1) * 2 powi (- int t)"
    using xu by (intro hi [OF M0 M53]) (simp only: below_next_integer)
  then have upper: "float_val (Finite m s) \<le> real_of_int k + 1 - 1 / 2 ^ t"
    by (simp only: below_next_integer)
  from d m lower upper show ?thesis
    by (auto simp: k_def)
qed

lemma add_one_value:
  assumes "0 \<le> m" and "0 \<le> k"
    and "real_of_int k \<le> float_val (Finite m s)"
    and "float_val (Finite m s) \<le> real_of_int k + 1 - 1 / 2 ^ t"
    and "(k + 2) * 2 ^ t \<le> 2 ^ 53"
  shows "\<exists>m' s'. py_float_add_int (Finite m s) 1 = Inr (Finite m' s') \<and> 0 \<le> m'
     \<and> real_of_int (k + 1) \<le> float_val (Finite m' s')
     \<and> float_val (Finite m' s') < real_of_int (k + 1) + 1"
proof -
  define P where "P = (k + 2) * 2 ^ t"
  define Q :: int where "Q = 2 ^ t"
  have P: "P \<le> 2 ^ 53" using assms(5) by (simp add: P_def)
  have Q: "1 \<le> Q" by (simp add: Q_def)
  have "(k + 2) * 1 \<le> (k + 2) * 2 ^ t"
    using assms(2) by (intro mult_left_mono) simp_all
  then have kP: "k + 2 \<le> P" by (simp add: P_def)
  have "2 * 1 \<le> (k + 2) * 2 ^ t"
    using assms(2) by (intro mult_mono) simp_all
  then have P2: "2 \<le> P" by (simp add: P_def)
  from float_add_one [OF assms(1), of s] obtain A B where
    A: "0 < A" and B: "0 < B"
    and add: "float_add (Finite m s) (Finite (2 ^ 52) (- 52)) = round_to_double A B"
    and z: "real_of_int A / real_of_int B = real_of_int m * 2 powi s + 1"
    by blast
  let ?z = "real_of_int A / real_of_int B"
  have zv: "?z = float_val (Finite m s) + 1"
    by (simp add: z float_val_def)
  have T: "(0::real) < 1 / 2 ^ t" by simp
  have zl: "real_of_int (k + 1) \<le> ?z"
    using assms(3) by (simp add: zv)
  have zu: "?z \<le> real_of_int (k + 1) + 1 - 1 / 2 ^ t"
    using assms(4) by (simp add: zv)
  have "1 \<le> k + 1" using assms(2) by simp
  then have "real_of_int 1 \<le> real_of_int (k + 1)"
    by (simp only: of_int_le_iff)
  with zl have l: "2 powi 0 \<le> ?z" by simp
  have "k + 2 \<le> 2 ^ 53" using kP P by linarith
  then have "real_of_int (k + 2) \<le> real_of_int (2 ^ 53)"
    by (simp only: of_int_le_iff)
  moreover have "real_of_int (k + 1) + 1 = real_of_int (k + 2)" by simp
  ultimately have "?z < real_of_int (2 ^ 53)" using zu T by linarith
  then have u: "?z < 2 powi 53" by simp
  from round_to_double_value [OF A B l _ u] obtain m' s' where
    f: "round_to_double A B = Finite m' s'" and m': "0 \<le> m'"
    and lo: "\<And>M S. 0 < M \<Longrightarrow> M < 2 ^ 53 \<Longrightarrow> real_of_int M * 2 powi S \<le> ?z
          \<Longrightarrow> real_of_int M * 2 powi S \<le> float_val (Finite m' s')"
    and hi: "\<And>M S. 0 < M \<Longrightarrow> M < 2 ^ 53 \<Longrightarrow> ?z \<le> real_of_int M * 2 powi S
          \<Longrightarrow> float_val (Finite m' s') \<le> real_of_int M * 2 powi S"
    by auto
  have r: "py_float_add_int (Finite m s) 1 = Inr (Finite m' s')"
    by (simp only: py_float_add_int_def py_float_of_int_1 add f sum.case)
  have k1: "0 < k + 1" "k + 1 < 2 ^ 53"
    using assms(2) kP P by simp_all
  have lower: "real_of_int (k + 1) \<le> float_val (Finite m' s')"
    using lo [of "k + 1" 0] k1 zl by simp
  have M: "(k + 1 + 1) * 2 ^ t - 1 = P - 1" by (simp add: P_def)
  have M0: "0 < (k + 1 + 1) * 2 ^ t - 1" and M53: "(k + 1 + 1) * 2 ^ t - 1 < 2 ^ 53"
    using P P2 unfolding M by simp_all
  have "float_val (Finite m' s') \<le> real_of_int ((k + 1 + 1) * 2 ^ t - 1) * 2 powi (- int t)"
    using zu by (intro hi [OF M0 M53]) (simp only: below_next_integer)
  then have "float_val (Finite m' s') \<le> real_of_int (k + 1) + 1 - 1 / 2 ^ t"
    by (simp only: below_next_integer)
  with T have upper: "float_val (Finite m' s') < real_of_int (k + 1) + 1" by linarith
  from r m' lower upper show ?thesis by blast
qed

lemma truediv_add_one_int:
  assumes "0 \<le> n" and "0 < D" and "D \<le> 2 ^ t" and "(n div D + 2) * 2 ^ t \<le> 2 ^ 53"
  shows "bind_err (bind_err (py_truediv n D) (\<lambda>q. py_float_add_int q 1)) py_int_of_float
           = Inr (n div D + 1)"
proof -
  have k0: "0 \<le> n div D"
    using assms(1,2) by (simp add: pos_imp_zdiv_nonneg_iff)
  from truediv_value [OF assms] obtain m s where
    d: "py_truediv n D = Inr (Finite m s)" and m: "0 \<le> m"
    and l: "real_of_int (n div D) \<le> float_val (Finite m s)"
    and u: "float_val (Finite m s) \<le> real_of_int (n div D) + 1 - 1 / 2 ^ t"
    by blast
  from add_one_value [OF m k0 l u assms(4)] obtain m' s' where
    a: "py_float_add_int (Finite m s) 1 = Inr (Finite m' s')" and m': "0 \<le> m'"
    and l': "real_of_int (n div D + 1) \<le> float_val (Finite m' s')"
    and u': "float_val (Finite m' s') < real_of_int (n div D + 1) + 1"
    by blast
  from l' u' have "\<lfloor>float_val (Finite m' s')\<rfloor> = n div D + 1"
    by (rule floor_unique)
  then show ?thesis
    using m' by (simp add: bind_err_def d a py_int_of_float_floor del: py_int_of_float.simps)
qed

lemma power_of_two_above:
  assumes "0 < D"
  shows "\<exists>t. D \<le> 2 ^ t \<and> (2::int) ^ t \<le> 2 * D"
proof -
  from assms have b1: "1 \<le> bitlen D"
    by (simp add: bitlen_alt_def)
  from bitlen_bounds [OF assms] have
    l: "2 ^ nat (bitlen D - 1) \<le> D" and u: "D < 2 ^ nat (bitlen D)" by simp_all
  have "nat (bitlen D) = Suc (nat (bitlen D - 1))"
    using b1 by simp
  then have "(2::int) ^ nat (bitlen D) = 2 * 2 ^ nat (bitlen D - 1)"
    by (simp only: power_Suc)
  with l u show ?thesis
    by (intro exI [of _ "nat (bitlen D)"]) simp
qed

lemma ceiling_step: "0 \<le> r \<Longrightarrow> r < 256 \<Longrightarrow> (r + 255) div (256::int) = (if r = 0 then 0 else 1)"
proof (cases "r = 0")
  case True
  then show ?thesis by simp
next
  case False
  assume "0 \<le> r" "r < 256"
  with False have "256 \<le> r + 255" "0 \<le> r - 1" "r - 1 < 256" by simp_all
  then have "(r + 255) div 256 = (r + 255 - 256) div 256 + 1"
    by (subst div_pos_geq) simp_all
  also have "r + 255 - 256 = r - 1" by simp
  also have "(r - 1) div 256 = 0"
    using \<open>0 \<le> r - 1\<close> \<open>r - 1 < 256\<close> by (rule div_pos_pos_trivial)
  finally show ?thesis using False by simp
qed

lemma ceiling_div_256: "- ((- n) div 256) = (n + 255) div (256::int)"
proof -
  have 1: "(n + 255) div 256 = n div 256 + (n mod 256 + 255) div 256"
    by (simp add: div_add1_eq [of n 255 256])
  have 2: "(n mod 256 + 255) div 256 = (if n mod 256 = 0 then 0 else 1)"
    by (rule ceiling_step) simp_all
  have 3: "(- n) div 256 = (if n mod 256 = 0 then - (n div 256) else - (n div 256) - 1)"
    by (simp add: zdiv_zminus1_eq_if)
  show ?thesis
    unfolding 1 2 3 by simp
qed

lemma bind_err_Inr: "bind_err (Inr v) f = f v"
  by (simp add: bind_err_def)

text \<open>
  Where the code and the formula agree: on a device with at least one block
  (\<open>multi_processor_count * (max_threads_per_multi_processor div 256) \<ge> 1\<close>) and for
  every shape of 1 to \<open>2 ^ 48\<close> elements, no division rounds across an integer and the
  calculator returns the value of the specification's formula.
\<close>

lemma rand_offset_calculator_agrees:
  assumes "0 \<le> max_threads_per_multi_processor dp"
    and "max_threads_per_multi_processor dp < 2 ^ 53"
    and "1 \<le> multi_processor_count dp * (max_threads_per_multi_processor dp div 256)"
    and "1 \<le> foldl (*) 1 shp" and "foldl (*) 1 shp \<le> 2 ^ 48"
  shows "rand_offset_calculator dp shp = Inr (OffsetCalculator_spec dp (foldl (*) 1 shp))"
proof -
  define N where "N = foldl (*) 1 shp"
  define cap where
    "cap = multi_processor_count dp * (max_threads_per_multi_processor dp div 256)"
  define g where "g = min ((N + 255) div 256) cap"
  define D where "D = 256 * g * 4"
  define k where "k = (N - 1) div D"
  have N: "1 \<le> N" "N \<le> 2 ^ 48" using assms(4,5) by (simp_all add: N_def)
  have g0: "1 \<le> (N + 255) div 256" using N(1) by simp
  have g1: "1 \<le> g" using g0 assms(3) by (simp add: g_def cap_def)
  have g2: "g \<le> (N + 255) div 256" by (simp add: g_def)
  have D0: "0 < D" using g1 by (simp add: D_def)
  have "256 * ((N + 255) div 256) \<le> N + 255" by simp
  with g2 have DN: "D \<le> 4 * N + 1020" by (simp add: D_def)
  have bps: "bind_err (py_truediv (max_threads_per_multi_processor dp) 256) py_int_of_float
      = Inr (max_threads_per_multi_processor dp div 256)"
    using assms(1,2) by (rule truediv_256_int)
  have grid: "bind_err (py_truediv (N + 256 - 1) 256) py_int_of_float = Inr ((N + 255) div 256)"
  proof -
    have eq: "N + 256 - 1 = N + 255" by simp
    have "0 \<le> N + 255" "N + 255 < 2 ^ 53" using N by simp_all
    then show ?thesis unfolding eq by (rule truediv_256_int)
  qed
  from power_of_two_above [OF D0] obtain t where t: "D \<le> 2 ^ t" "(2::int) ^ t \<le> 2 * D"
    by blast
  have k0: "0 \<le> k" using N(1) D0 by (simp add: k_def pos_imp_zdiv_nonneg_iff)
  have kD: "k * D \<le> N - 1"
  proof -
    have "N - 1 = k * D + (N - 1) mod D" by (simp add: k_def)
    moreover have "0 \<le> (N - 1) mod D" using D0 by simp
    ultimately show ?thesis by linarith
  qed
  define P where "P = k * D"
  have "(k + 2) * 2 ^ t \<le> (k + 2) * (2 * D)"
    using t(2) k0 by (intro mult_left_mono) simp_all
  also have "\<dots> = 2 * P + 4 * D" by (simp add: P_def algebra_simps)
  also have "\<dots> \<le> 2 * (N - 1) + 4 * (4 * N + 1020)"
  proof (rule add_mono)
    show "2 * P \<le> 2 * (N - 1)" using kD by (simp add: P_def)
    show "4 * D \<le> 4 * (4 * N + 1020)" using DN by simp
  qed
  also have "\<dots> \<le> 2 ^ 53" using N(2) by simp
  finally have bound: "((N - 1) div D + 2) * 2 ^ t \<le> 2 ^ 53" by (simp only: k_def)
  have "0 \<le> N - 1" using N(1) by simp
  from truediv_add_one_int [OF this D0 t(1) bound]
  have chain: "bind_err (bind_err (py_truediv (N - 1) (256 * g * 4))
        (\<lambda>q. py_float_add_int q 1)) py_int_of_float = Inr ((N - 1) div (256 * g * 4) + 1)"
    by (simp only: D_def)
  have "rand_offset_calculator dp shp =
      bind_err (bind_err (py_truediv (max_threads_per_multi_processor dp) 256) py_int_of_float)
        (\<lambda>blocks_per_sm.
      bind_err (bind_err (py_truediv (N + 256 - 1) 256) py_int_of_float) (\<lambda>grid_size0.
      bind_err (bind_err (bind_err
          (py_truediv (N - 1)
             (256 * min grid_size0 (multi_processor_count dp * blocks_per_sm) * 4))
          (\<lambda>q. py_float_add_int q 1)) py_int_of_float) (\<lambda>k. Inr (k * 4))))"
    by (simp only: rand_offset_calculator_def Let_def N_def)
  also have "\<dots> =
      bind_err (bind_err (bind_err (py_truediv (N - 1) (256 * g * 4))
          (\<lambda>q. py_float_add_int q 1)) py_int_of_float) (\<lambda>k. Inr (k * 4))"
    by (simp only: bps grid bind_err_Inr g_def cap_def)
  also have "\<dots> = Inr (((N - 1) div (256 * g * 4) + 1) * 4)"
    by (simp only: chain bind_err_Inr)
  finally have 1: "rand_offset_calculator dp shp = Inr (((N - 1) div (256 * g * 4) + 1) * 4)" .
  have "OffsetCalculator_spec dp N =
      ((N - 1) div (256 * min (- ((- N) div 256))
         (multi_processor_count dp * (max_threads_per_multi_processor dp div 256)) * 4) + 1) * 4"
    by (simp only: OffsetCalculator_spec_def Let_def)
  also have "\<dots> = ((N - 1) div (256 * g * 4) + 1) * 4"
    by (simp only: ceiling_div_256 g_def cap_def)
  finally have 2: "OffsetCalculator_spec dp N = ((N - 1) div (256 * g * 4) + 1) * 4" .
  from 1 2 have "rand_offset_calculator dp shp = Inr (OffsetCalculator_spec dp N)" by simp
  then show ?thesis by (simp only: N_def)
qed

lemma rand_offset_calculator_agrees_example:
  "rand_offset_calculator a100 [4, 4] = Inr (OffsetCalculator_spec a100 16)
   \<and> rand_offset_calculator a100 [] = Inr (OffsetCalculator_spec a100 1)
   \<and> OffsetCalculator_spec a100 16 = 4 \<and> OffsetCalculator_spec a100 1 = 4"
  using rand_offset_calculator_agrees [of a100 "[4, 4]"]
    rand_offset_calculator_agrees [of a100 "[]"]
  by (simp add: a100_def OffsetCalculator_spec_def)

text \<open>
  C1.  The specification's formula is in integer arithmetic; the code divides with \<^verbatim>\<open>/\<close>
  and truncates with \<^verbatim>\<open>int\<close>.  For the shape [15199648742375424] (27 * 2 ^ 49 elements) on a
  device with 108 multiprocessors of 2048 threads the grid is 864 blocks and the exact
  quotient is \<open>2 ^ 34 - 1 / 884736\<close>.  The division rounds it to \<open>2 ^ 34 - 2 ^ - 19\<close>,
  adding 1 rounds that to \<open>2 ^ 34 + 1\<close>, and the code returns \<open>4 * (2 ^ 34 + 1)\<close> where
  the formula gives \<open>4 * 2 ^ 34\<close>.
\<close>

theorem rand_offset_calculator_rounds_up_at_large_numel:
  "rand_offset_calculator a100 [15199648742375424] = Inr 68719476740
   \<and> OffsetCalculator_spec a100 (foldl (*) 1 [15199648742375424]) = 68719476736
   \<and> rand_offset_calculator a100 [15199648742375424]
       \<noteq> Inr (OffsetCalculator_spec a100 (foldl (*) 1 [15199648742375424]))"
proof -
  have 1: "rand_offset_calculator a100 [15199648742375424] = Inr 68719476740"
    unfolding a100_def by code_simp
  have 2: "OffsetCalculator_spec a100 (foldl (*) 1 [15199648742375424]) = 68719476736"
    by (simp add: OffsetCalculator_spec_def a100_def)
  from 1 2 show ?thesis by simp
qed


section \<open>Properties of the guard\<close>

text \<open>
  C3.  When the wrapped implementation returns, the guard raises its ValueError
  (the specification's OffsetStagnationError) exactly if the running state's relative
  offset read before the call equals the one read after it, and otherwise returns the
  implementation's result and state unchanged.  An exception of the implementation itself
  propagates as it is.
\<close>

theorem guard_raises_iff_offset_unchanged:
  "(\<forall>res cls'. fn args cls = (Inr res, cls') \<longrightarrow>
      ((throw_if_philox_offset_did_not_advance fn args cls
          = (Inl (ValueError ''Philox seed offset did not advance after decomposition''), cls'))
        \<longleftrightarrow> get_current_relative_offset cls = get_current_relative_offset cls')
      \<and> (get_current_relative_offset cls \<noteq> get_current_relative_offset cls'
           \<longrightarrow> throw_if_philox_offset_did_not_advance fn args cls = (Inr res, cls')))
   \<and> (\<forall>err cls'. fn args cls = (Inl err, cls') \<longrightarrow>
        throw_if_philox_offset_did_not_advance fn args cls = (Inl err, cls'))"
  by (simp add: throw_if_philox_offset_did_not_advance_def)

theorem guard_raises_iff_offset_unchanged_witness:
  "throw_if_philox_offset_did_not_advance (\<lambda>n cls. (Inr n, advance_offset n cls)) 4
      (class_PhiloxStateTracker :: int PhiloxStateTracker)
     = (Inr 4, advance_offset 4 class_PhiloxStateTracker)
   \<and> throw_if_philox_offset_did_not_advance (\<lambda>n cls. (Inr n, advance_offset n cls)) 0
      (class_PhiloxStateTracker :: int PhiloxStateTracker)
     = (Inl (ValueError ''Philox seed offset did not advance after decomposition''),
        advance_offset 0 class_PhiloxStateTracker)
   \<and> throw_if_philox_offset_did_not_advance (\<lambda>n cls. (Inl AssertionError :: py_error + int, cls)) 4
      (class_PhiloxStateTracker :: int PhiloxStateTracker)
     = (Inl AssertionError, class_PhiloxStateTracker)"
  using
    guard_raises_iff_offset_unchanged
      [of "\<lambda>n cls. (Inr n, advance_offset n cls)" 4 "class_PhiloxStateTracker :: int PhiloxStateTracker"]
    guard_raises_iff_offset_unchanged
      [of "\<lambda>n cls. (Inr n, advance_offset n cls)" 0 "class_PhiloxStateTracker :: int PhiloxStateTracker"]
    guard_raises_iff_offset_unchanged
      [of "\<lambda>n cls. (Inl AssertionError :: py_error + int, cls)" 4
          "class_PhiloxStateTracker :: int PhiloxStateTracker"]
  by (simp add: get_current_relative_offset_def advance_offset_def update_object_def
        PhiloxState_advance_offset_def)

section \<open>Properties of PhiloxState\<close>

text \<open>
  C7.  Reading the pair for a draw, as a tuple or as a tensor, raises AssertionError
  (the specification's UninitializedStateError) when the seed or the base offset is
  empty; when both are populated the read returns the seed and the base offset plus the
  relative offset.  The tracker's reads are those of its running state.
\<close>

theorem uninitialized_read_fails:
  "(numel (seed self) = 0 \<or> numel (base_offset self) = 0 \<longrightarrow>
      PhiloxState_get_state_as_tuple self = Inl AssertionError
      \<and> PhiloxState_get_state_as_tensor self = Inl AssertionError)
   \<and> (numel (seed self) \<noteq> 0 \<and> numel (base_offset self) \<noteq> 0 \<longrightarrow>
      PhiloxState_get_state_as_tuple self
        = Inr (seed self, tensor_add_int (base_offset self) (relative_offset self))
      \<and> PhiloxState_get_state_as_tensor self
        = Inr [seed self, tensor_add_int (base_offset self) (relative_offset self)])
   \<and> (\<forall>s b. seed self = Scalar s \<and> base_offset self = Scalar b \<longrightarrow>
      PhiloxState_get_state_as_tuple self
        = Inr (Scalar s, Scalar (b + of_int (relative_offset self))))
   \<and> (self = heap cls (running_state cls) \<longrightarrow>
        get_state_as_tuple cls = PhiloxState_get_state_as_tuple self
      \<and> get_state_as_tensor cls = PhiloxState_get_state_as_tensor self)"
  by (cases "seed self"; cases "base_offset self")
     (simp_all add: PhiloxState_get_state_as_tuple_def PhiloxState_get_state_as_tensor_def
        PhiloxState_validate_state_def bind_err_def torch_stack_def
        get_state_as_tuple_def get_state_as_tensor_def)

theorem uninitialized_read_fails_witness:
  "PhiloxState_get_state_as_tuple (PhiloxState_init :: int PhiloxState) = Inl AssertionError
   \<and> PhiloxState_get_state_as_tensor \<lparr>seed = Scalar (42 :: int), base_offset = Empty, relative_offset = 0\<rparr>
       = Inl AssertionError
   \<and> PhiloxState_get_state_as_tuple \<lparr>seed = Scalar (42 :: int), base_offset = Scalar 7, relative_offset = 8\<rparr>
       = Inr (Scalar 42, Scalar 15)
   \<and> get_state_as_tuple (class_PhiloxStateTracker :: int PhiloxStateTracker) = Inl AssertionError"
  using
    uninitialized_read_fails [of "PhiloxState_init :: int PhiloxState" undefined]
    uninitialized_read_fails
      [of "\<lparr>seed = Scalar (42 :: int), base_offset = Empty, relative_offset = 0\<rparr>" undefined]
    uninitialized_read_fails
      [of "\<lparr>seed = Scalar (42 :: int), base_offset = Scalar 7, relative_offset = 8\<rparr>" undefined]
    uninitialized_read_fails
      [of "heap (class_PhiloxStateTracker :: int PhiloxStateTracker)
             (running_state (class_PhiloxStateTracker :: int PhiloxStateTracker))"
          "class_PhiloxStateTracker :: int PhiloxStateTracker"]
  by (simp add: PhiloxState_init_def class_PhiloxStateTracker_def clear_def new_PhiloxState_def)

text \<open>
  C4.  For a state whose seed and base offset are populated, the transport value is
  produced, and restoring from it keeps the seed, makes the base offset the former base
  offset plus relative offset, resets the relative offset to 0, and so leaves the pair
  read for a draw as it was.
\<close>

theorem transport_round_trip:
  assumes "numel (seed self) \<noteq> 0" and "numel (base_offset self) \<noteq> 0"
  shows "\<exists>state self'.
      PhiloxState_get_state_as_tensor self = Inr state
    \<and> PhiloxState_set_state_from_tensor state self = Inr self'
    \<and> seed self' = seed self
    \<and> base_offset self' = tensor_add_int (base_offset self) (relative_offset self)
    \<and> relative_offset self' = 0
    \<and> PhiloxState_get_state_as_tuple self' = PhiloxState_get_state_as_tuple self"
  using assms
  by (cases "seed self"; cases "base_offset self")
     (simp_all add: PhiloxState_get_state_as_tuple_def PhiloxState_get_state_as_tensor_def
        PhiloxState_validate_state_def bind_err_def torch_stack_def
        PhiloxState_set_state_from_tensor_def torch_split_1_def)

theorem transport_round_trip_witness:
  "\<exists>state self'.
      PhiloxState_get_state_as_tensor
        \<lparr>seed = Scalar (42 :: int), base_offset = Scalar 7, relative_offset = 8\<rparr> = Inr state
    \<and> PhiloxState_set_state_from_tensor state
        \<lparr>seed = Scalar 42, base_offset = Scalar 7, relative_offset = 8\<rparr> = Inr self'
    \<and> seed self' = Scalar 42 \<and> base_offset self' = Scalar 15 \<and> relative_offset self' = 0
    \<and> PhiloxState_get_state_as_tuple self'
        = PhiloxState_get_state_as_tuple
            \<lparr>seed = Scalar 42, base_offset = Scalar 7, relative_offset = 8\<rparr>"
  using transport_round_trip
    [of "\<lparr>seed = Scalar (42 :: int), base_offset = Scalar 7, relative_offset = 8\<rparr>"]
  by simp

section \<open>Properties of the tracker\<close>

text \<open>
  C8.  \<^verbatim>\<open>record_state\<close> with mode "forward" replaces the fields of the forward state,
  with mode "backward" those of the backward state, whichever state is running, and sets
  the relative offset to 0; nothing else changes.  Any other mode raises AssertionError
  (the specification's InvalidPhaseError) and changes nothing.
\<close>

theorem record_state_sets_named_phase:
  "record_state sd offset ''forward'' cls
      = (Inr (), cls\<lparr>heap := (heap cls)(fwd_state cls :=
            (heap cls (fwd_state cls))\<lparr>seed := sd, base_offset := offset, relative_offset := 0\<rparr>)\<rparr>)
   \<and> fwd_object (snd (record_state sd offset ''forward'' cls))
      = \<lparr>seed = sd, base_offset = offset, relative_offset = 0\<rparr>
   \<and> record_state sd offset ''backward'' cls
      = (Inr (), cls\<lparr>heap := (heap cls)(bwd_state cls :=
            (heap cls (bwd_state cls))\<lparr>seed := sd, base_offset := offset, relative_offset := 0\<rparr>)\<rparr>)
   \<and> bwd_object (snd (record_state sd offset ''backward'' cls))
      = \<lparr>seed = sd, base_offset = offset, relative_offset = 0\<rparr>
   \<and> (mode \<noteq> ''forward'' \<and> mode \<noteq> ''backward'' \<longrightarrow>
        record_state sd offset mode cls = (Inl AssertionError, cls))"
  by (simp add: record_state_def update_object_def PhiloxState_set_state_def
        fwd_object_def bwd_object_def)

theorem record_state_sets_named_phase_witness:
  "record_state (Scalar 42) (Scalar 7) ''sideways'' (class_PhiloxStateTracker :: int PhiloxStateTracker)
      = (Inl AssertionError, class_PhiloxStateTracker)
   \<and> bwd_object (snd (record_state (Scalar 42) (Scalar 7) ''backward''
        (mark_beginning_of_forward (class_PhiloxStateTracker :: int PhiloxStateTracker))))
      = \<lparr>seed = Scalar 42, base_offset = Scalar 7, relative_offset = 0\<rparr>"
  using
    record_state_sets_named_phase
      [where mode = "''sideways''" and sd = "Scalar 42" and offset = "Scalar 7"
         and cls = "class_PhiloxStateTracker :: int PhiloxStateTracker"]
    record_state_sets_named_phase
      [where mode = "''sideways''" and sd = "Scalar 42" and offset = "Scalar 7"
         and cls = "mark_beginning_of_forward (class_PhiloxStateTracker :: int PhiloxStateTracker)"]
  by (simp add: bwd_object_def)

lemma separate_clear: "separate (clear cls)"
  by (simp add: separate_def clear_def new_PhiloxState_def)

lemma separate_call: "separate cls \<Longrightarrow> separate (call c cls)"
  by (cases c)
     (simp_all add: separate_def clear_def new_PhiloxState_def mark_beginning_of_forward_def
        mark_beginning_of_backward_def mark_end_of_tracing_def record_state_def
        set_state_from_tensor_def advance_offset_def update_object_def split: sum.splits)

lemma separate_calls: "separate cls \<Longrightarrow> separate (calls cs cls)"
  unfolding calls_def by (induction cs arbitrary: cls) (simp_all add: separate_call)

lemma separate_class: "separate class_PhiloxStateTracker"
  by (simp add: class_PhiloxStateTracker_def separate_clear)

text \<open>
  C2.  In every state the tracker reaches from its initial one by any sequence of its
  methods: while the forward state is running, advancing the offset changes the forward
  state's relative offset only and leaves the backward state as it is, and the other way
  round while the backward state is running; advancing changes no object but the one the
  running reference points to; repointing the running reference changes no object and
  neither phase reference.
\<close>

theorem phase_isolation:
  assumes "cls = calls cs class_PhiloxStateTracker"
  shows "(running_state cls = fwd_state cls \<longrightarrow>
            bwd_object (advance_offset n cls) = bwd_object cls
          \<and> fwd_object (advance_offset n cls)
              = (fwd_object cls)\<lparr>relative_offset := relative_offset (fwd_object cls) + n\<rparr>)
       \<and> (running_state cls = bwd_state cls \<longrightarrow>
            fwd_object (advance_offset n cls) = fwd_object cls
          \<and> bwd_object (advance_offset n cls)
              = (bwd_object cls)\<lparr>relative_offset := relative_offset (bwd_object cls) + n\<rparr>)
       \<and> (\<forall>r. r \<noteq> running_state cls \<longrightarrow> heap (advance_offset n cls) r = heap cls r)
       \<and> mark_beginning_of_forward cls = cls\<lparr>running_state := fwd_state cls\<rparr>
       \<and> mark_beginning_of_backward cls = cls\<lparr>running_state := bwd_state cls\<rparr>
       \<and> bwd_object (advance_offset n (mark_beginning_of_forward cls)) = bwd_object cls
       \<and> fwd_object (advance_offset n (mark_beginning_of_backward cls)) = fwd_object cls"
proof -
  have "separate cls"
    unfolding assms by (rule separate_calls [OF separate_class])
  then have ne: "fwd_state cls \<noteq> bwd_state cls"
    by (simp add: separate_def)
  show ?thesis
    using ne
    by (simp add: advance_offset_def update_object_def fwd_object_def bwd_object_def
          PhiloxState_advance_offset_def mark_beginning_of_forward_def
          mark_beginning_of_backward_def)
qed

theorem phase_isolation_witness:
  "bwd_object (advance_offset 5 (calls [Mark_beginning_of_backward, Advance_offset 3,
        Mark_beginning_of_forward] (class_PhiloxStateTracker :: int PhiloxStateTracker)))
     = bwd_object (calls [Mark_beginning_of_backward, Advance_offset 3,
        Mark_beginning_of_forward] (class_PhiloxStateTracker :: int PhiloxStateTracker))
   \<and> fwd_object (advance_offset 5 (calls [Mark_beginning_of_forward, Advance_offset 3,
        Mark_beginning_of_backward] (class_PhiloxStateTracker :: int PhiloxStateTracker)))
     = fwd_object (calls [Mark_beginning_of_forward, Advance_offset 3,
        Mark_beginning_of_backward] (class_PhiloxStateTracker :: int PhiloxStateTracker))"
  using
    phase_isolation [OF refl, where cs = "[Mark_beginning_of_backward, Advance_offset 3,
        Mark_beginning_of_forward] :: int tracker_call list" and n = 5]
    phase_isolation [OF refl, where cs = "[Mark_beginning_of_forward, Advance_offset 3,
        Mark_beginning_of_backward] :: int tracker_call list" and n = 5]
  by (simp add: calls_def mark_beginning_of_forward_def mark_beginning_of_backward_def
        advance_offset_def update_object_def)

section \<open>Properties of the decompositions\<close>

text \<open>
  C6.  \<^verbatim>\<open>rand\<close> called with a device object whose kind is not "cuda" (a cpu device, say)
  raises the RuntimeError of \<^verbatim>\<open>throw_on_non_cuda\<close> (the specification's
  UnsupportedDeviceError), whose message names the kind, whatever the tracker holds, and
  leaves the whole tracker, so also the running state's relative offset, as it was.
\<close>

theorem rand_rejects_non_cuda_device:
  assumes "device args = Some (Device kind index)" and "kind \<noteq> ''cuda''"
  shows "rand env args cls
      = (Inl (RuntimeError
          (''You are trying to functionalize a '' @ kind @ '' RNG operator but '' @ kind
           @ '' does not use Philox/counter-based PRNG. Therefore, functionalizing a '' @ kind
           @ '' RNG operator is not supported. We are discussing the possibility of a ''
           @ ''Philox-based RNG implementation for CPU.'')), cls)
    \<and> rand_fn env args cls = (Inl (throw_on_non_cuda (Device kind index)), cls)
    \<and> get_current_relative_offset (snd (rand env args cls)) = get_current_relative_offset cls"
proof -
  have 1: "rand_fn env args cls = (Inl (throw_on_non_cuda (Device kind index)), cls)"
    using assms by (simp add: rand_fn_def or_default_def)
  then have "rand env args cls = (Inl (throw_on_non_cuda (Device kind index)), cls)"
    by (simp add: rand_def throw_if_philox_offset_did_not_advance_def)
  with 1 show ?thesis
    by (simp add: throw_on_non_cuda_def)
qed

theorem rand_rejects_non_cuda_device_witness:
  "rand example_env (example_args (Some (Device ''cpu'' None))) class_PhiloxStateTracker
      = (Inl (RuntimeError
          (''You are trying to functionalize a cpu RNG operator but cpu does not use ''
           @ ''Philox/counter-based PRNG. Therefore, functionalizing a cpu RNG operator is ''
           @ ''not supported. We are discussing the possibility of a ''
           @ ''Philox-based RNG implementation for CPU.'')), class_PhiloxStateTracker)"
  using rand_rejects_non_cuda_device
    [where args = "example_args (Some (Device ''cpu'' None))" and kind = "''cpu''"
       and index = None and env = example_env and cls = class_PhiloxStateTracker]
  by (simp add: example_args_def)

text \<open>
  C10.  \<^verbatim>\<open>rand\<close> called without a device replaces it by the string "cpu"; reading
  \<^verbatim>\<open>.type\<close> of the string raises AttributeError.  This is the result of the body and
  of the guarded function whatever the tracker holds (also where reading the seed and
  offset would fail), the tracker is left as it was, and the error is not the RuntimeError
  of \<^verbatim>\<open>throw_on_non_cuda\<close>.
\<close>

theorem rand_default_device_attribute_error:
  assumes "device args = None"
  shows "rand env args cls
    = (Inl (AttributeError ([CHR 0x27] @ ''str'' @ [CHR 0x27] @ '' object has no attribute ''
              @ [CHR 0x27] @ ''type'' @ [CHR 0x27])), cls)
    \<and> rand_fn env args cls
    = (Inl (AttributeError ([CHR 0x27] @ ''str'' @ [CHR 0x27] @ '' object has no attribute ''
              @ [CHR 0x27] @ ''type'' @ [CHR 0x27])), cls)"
  using assms
  by (simp add: rand_def rand_fn_def or_default_def throw_if_philox_offset_did_not_advance_def)

theorem rand_default_device_attribute_error_witness:
  "rand example_env (example_args None) class_PhiloxStateTracker
    = (Inl (AttributeError ([CHR 0x27] @ ''str'' @ [CHR 0x27] @ '' object has no attribute ''
              @ [CHR 0x27] @ ''type'' @ [CHR 0x27])), class_PhiloxStateTracker)"
  using rand_default_device_attribute_error
    [where args = "example_args None" and env = example_env and cls = class_PhiloxStateTracker]
  by (simp add: example_args_def)

section \<open>Offsets accumulated by draws\<close>

lemma rand_like_fn_returns:
  assumes "rand_like_fn env (x, args) cls = (Inr r, cls')"
  shows "\<exists>n. rand_offset_calculator (get_device_properties env) (x_shape x) = Inr n
           \<and> cls' = advance_offset n cls"
  using assms
  by (auto simp: rand_like_fn_def Let_def split: sum.splits if_splits prod.splits)

lemma guard_returns:
  assumes "throw_if_philox_offset_did_not_advance fn args cls = (Inr r, cls')"
  shows "fn args cls = (Inr r, cls')"
  using assms
  by (auto simp: throw_if_philox_offset_did_not_advance_def Let_def
        split: sum.splits if_splits prod.splits)

lemma rand_like_returns:
  assumes "rand_like env xargs cls = (Inr r, cls')"
  shows "rand_like_fn env xargs cls = (Inr r, cls')"
  using assms unfolding rand_like_def by (rule guard_returns)

lemma relative_offset_advance:
  "get_current_relative_offset (advance_offset n cls) = get_current_relative_offset cls + n"
  by (simp add: get_current_relative_offset_def advance_offset_def update_object_def
        PhiloxState_advance_offset_def)

lemma refs_advance:
  "running_state (advance_offset n cls) = running_state cls"
  "fwd_state (advance_offset n cls) = fwd_state cls"
  "bwd_state (advance_offset n cls) = bwd_state cls"
  by (simp_all add: advance_offset_def update_object_def)

lemma scenario_backward:
  assumes "c2 = snd (record_state sd offset ''forward'' (mark_beginning_of_forward (clear c0)))"
    and "c4 = advance_offset n (advance_offset n c2)"
    and "c6 = snd (record_state sd2 offset2 ''backward'' (mark_beginning_of_backward c4))"
    and "rand_like env (x, a3) c6 = (Inr r3, c7)"
  shows "\<exists>m. rand_offset_calculator (get_device_properties env) (x_shape x) = Inr m
     \<and> get_accumulated_offsets c7 = \<lparr>total_fwd_offset = 2 * n, total_bwd_offset = m\<rparr>"
proof -
  from assms(4) have "rand_like_fn env (x, a3) c6 = (Inr r3, c7)"
    by (rule rand_like_returns)
  from rand_like_fn_returns [OF this] obtain m where
    m: "rand_offset_calculator (get_device_properties env) (x_shape x) = Inr m"
    and c7: "c7 = advance_offset m c6" by blast
  have "get_accumulated_offsets c7 = \<lparr>total_fwd_offset = 2 * n, total_bwd_offset = m\<rparr>"
    unfolding c7 assms(3) assms(2) assms(1)
    by (simp add: get_accumulated_offsets_def advance_offset_def update_object_def
          record_state_def mark_beginning_of_forward_def mark_beginning_of_backward_def
          clear_def new_PhiloxState_def PhiloxState_set_state_def PhiloxState_advance_offset_def
          PhiloxState_init_def)
  with m show ?thesis by blast
qed

lemma calculator_4_4: "rand_offset_calculator a100 [4, 4] = Inr 4"
  unfolding a100_def by code_simp

lemma calculator_2_3: "rand_offset_calculator a100 [2, 3] = Inr 4"
  unfolding a100_def by code_simp

lemma is_cuda_Device: "is_cuda dev \<Longrightarrow> \<exists>index. dev = Device ''cuda'' index"
  by (cases dev) simp_all

lemma returns_Inr: "returns x \<Longrightarrow> \<exists>v. x = Inr v"
  by (cases x) simp_all

lemma ceiling_positive:
  assumes "1 \<le> n"
  shows "1 \<le> - ((- n) div (256::int))"
proof -
  have "1 \<le> (n + 255) div 256" using assms by simp
  then show ?thesis by (simp only: ceiling_div_256)
qed

lemma OffsetCalculator_spec_positive:
  assumes "usable_device dp" and "1 \<le> n"
  shows "4 \<le> OffsetCalculator_spec dp n"
proof -
  define g where "g = min (- ((- n) div 256))
     (multi_processor_count dp * (max_threads_per_multi_processor dp div 256))"
  have "1 \<le> g"
    using assms ceiling_positive [OF assms(2)] by (simp add: g_def usable_device_def)
  then have "0 < 256 * g * 4" by simp
  moreover have "0 \<le> n - 1" using assms(2) by simp
  ultimately have "0 \<le> (n - 1) div (256 * g * 4)"
    by (simp add: pos_imp_zdiv_nonneg_iff)
  then have "4 \<le> ((n - 1) div (256 * g * 4) + 1) * 4" by simp
  then show ?thesis
    by (simp only: OffsetCalculator_spec_def Let_def g_def)
qed

lemma OffsetCalculator_spec_16:
  assumes "usable_device dp"
  shows "OffsetCalculator_spec dp 16 = 4"
proof -
  have "min 1 (multi_processor_count dp * (max_threads_per_multi_processor dp div 256)) = 1"
    using assms by (simp add: usable_device_def)
  then show ?thesis
    by (simp add: OffsetCalculator_spec_def)
qed

lemma calculator_in_range:
  assumes "usable_device dp" and "in_range shp"
  shows "\<exists>n. rand_offset_calculator dp shp = Inr n \<and> n \<noteq> 0"
proof -
  have "rand_offset_calculator dp shp = Inr (OffsetCalculator_spec dp (foldl (*) 1 shp))"
    using assms by (intro rand_offset_calculator_agrees) (simp_all add: usable_device_def in_range_def)
  moreover have "4 \<le> OffsetCalculator_spec dp (foldl (*) 1 shp)"
    using assms by (intro OffsetCalculator_spec_positive) (simp_all add: in_range_def)
  ultimately show ?thesis by auto
qed

lemma calculator_4_4_usable:
  assumes "usable_device dp"
  shows "rand_offset_calculator dp [4, 4] = Inr 4"
proof -
  have "rand_offset_calculator dp [4, 4] = Inr (OffsetCalculator_spec dp (foldl (*) 1 [4, 4]))"
    using assms by (intro rand_offset_calculator_agrees) (simp_all add: usable_device_def)
  then show ?thesis
    using OffsetCalculator_spec_16 [OF assms] by simp
qed

lemma initialized_tuple:
  assumes "initialized cls"
  shows "\<exists>sd offset. get_state_as_tuple cls = Inr (sd, offset)"
  using assms
  by (simp add: initialized_def get_state_as_tuple_def PhiloxState_get_state_as_tuple_def
        PhiloxState_validate_state_def bind_err_def)

lemma initialized_advance: "initialized (advance_offset n cls) = initialized cls"
  by (simp add: initialized_def advance_offset_def update_object_def PhiloxState_advance_offset_def)

lemma rand_draws:
  assumes "or_default (device args) (Str ''cpu'') = Device ''cuda'' index"
    and "get_state_as_tuple cls = Inr (sd, offset)"
    and "make_contiguous_strides_for env (shape args) = Inr stride"
    and "philox_rand env (shape args) sd offset stride (Device ''cuda'' index)
           (case dtype args of None \<Rightarrow> ''float32'' | Some d \<Rightarrow> d) = Inr r"
    and "rand_offset_calculator (get_device_properties env) (shape args) = Inr n"
    and "n \<noteq> 0"
  shows "rand env args cls = (Inr r, advance_offset n cls)"
proof -
  have "rand_fn env args cls = (Inr r, advance_offset n cls)"
    using assms by (simp add: rand_fn_def)
  then show ?thesis
    using assms(6)
    by (simp add: rand_def throw_if_philox_offset_did_not_advance_def relative_offset_advance)
qed

lemma rand_like_draws:
  assumes "or_default (device args) (x_device x) = Device ''cuda'' index"
    and "get_state_as_tuple cls = Inr (sd, offset)"
    and "philox_rand env (x_shape x) sd offset (x_stride x) (Device ''cuda'' index)
           (case dtype args of None \<Rightarrow> x_dtype x | Some d \<Rightarrow> d) = Inr r"
    and "rand_offset_calculator (get_device_properties env) (x_shape x) = Inr n"
    and "n \<noteq> 0"
  shows "rand_like env (x, args) cls = (Inr r, advance_offset n cls)"
proof -
  have "rand_like_fn env (x, args) cls = (Inr r, advance_offset n cls)"
    using assms by (simp add: rand_like_fn_def)
  then show ?thesis
    using assms(5)
    by (simp add: rand_like_def throw_if_philox_offset_did_not_advance_def relative_offset_advance)
qed

lemma invoke_draws:
  assumes prim: "\<And>shp sd offset stride dev dt. returns (philox_rand env shp sd offset stride dev dt)"
    and "usable_device (get_device_properties env)"
    and "drawable env d" and "initialized cls"
  shows "\<exists>r. invoke env d cls = (Inr r, advance_offset (draw_offset (get_device_properties env) d) cls)
     \<and> rand_offset_calculator (get_device_properties env) (draw_shape d)
           = Inr (draw_offset (get_device_properties env) d)
     \<and> draw_offset (get_device_properties env) d \<noteq> 0"
proof -
  from initialized_tuple [OF assms(4)] obtain sd offset where
    t: "get_state_as_tuple cls = Inr (sd, offset)" by blast
  show ?thesis
  proof (cases d)
    case (Rand args)
    with assms(3) have c: "is_cuda (or_default (device args) (Str ''cpu''))"
      and r: "in_range (shape args)"
      and s: "returns (make_contiguous_strides_for env (shape args))" by simp_all
    from is_cuda_Device [OF c] obtain index where
      dev: "or_default (device args) (Str ''cpu'') = Device ''cuda'' index" by blast
    from returns_Inr [OF s] obtain stride where
      st: "make_contiguous_strides_for env (shape args) = Inr stride" by blast
    from returns_Inr [OF prim] obtain res where
      p: "philox_rand env (shape args) sd offset stride (Device ''cuda'' index)
           (case dtype args of None \<Rightarrow> ''float32'' | Some d \<Rightarrow> d) = Inr res" by blast
    from calculator_in_range [OF assms(2) r] obtain n where
      n: "rand_offset_calculator (get_device_properties env) (shape args) = Inr n" and n0: "n \<noteq> 0"
      by blast
    have o: "draw_offset (get_device_properties env) d = n"
      by (simp add: draw_offset_def Rand n)
    from rand_draws [OF dev t st p n n0] Rand n n0 o show ?thesis by simp
  next
    case (Rand_like x args)
    with assms(3) have c: "is_cuda (or_default (device args) (x_device x))"
      and r: "in_range (x_shape x)" by simp_all
    from is_cuda_Device [OF c] obtain index where
      dev: "or_default (device args) (x_device x) = Device ''cuda'' index" by blast
    from returns_Inr [OF prim] obtain res where
      p: "philox_rand env (x_shape x) sd offset (x_stride x) (Device ''cuda'' index)
           (case dtype args of None \<Rightarrow> x_dtype x | Some d \<Rightarrow> d) = Inr res" by blast
    from calculator_in_range [OF assms(2) r] obtain n where
      n: "rand_offset_calculator (get_device_properties env) (x_shape x) = Inr n" and n0: "n \<noteq> 0"
      by blast
    have o: "draw_offset (get_device_properties env) d = n"
      by (simp add: draw_offset_def Rand_like n)
    from rand_like_draws [OF dev t p n n0] Rand_like n n0 o show ?thesis by simp
  qed
qed

lemma invoke_all_draws:
  assumes prim: "\<And>shp sd offset stride dev dt. returns (philox_rand env shp sd offset stride dev dt)"
    and "usable_device (get_device_properties env)"
    and "list_all (drawable env) ds" and "initialized cls"
  shows "\<exists>rs cls'. invoke_all env ds cls = (Inr rs, cls') \<and> length rs = length ds
     \<and> get_current_relative_offset cls'
         = get_current_relative_offset cls + sum_list (map (draw_offset (get_device_properties env)) ds)
     \<and> list_all (\<lambda>d. rand_offset_calculator (get_device_properties env) (draw_shape d)
                        = Inr (draw_offset (get_device_properties env) d)) ds
     \<and> running_state cls' = running_state cls"
  using assms(3,4)
proof (induction ds arbitrary: cls)
  case Nil
  then show ?case by simp
next
  case (Cons d ds)
  let ?dp = "get_device_properties env"
  from Cons.prems have d: "drawable env d" and ds: "list_all (drawable env) ds" by simp_all
  from invoke_draws [OF prim assms(2) d Cons.prems(2)] obtain r where
    1: "invoke env d cls = (Inr r, advance_offset (draw_offset ?dp d) cls)"
    and c: "rand_offset_calculator ?dp (draw_shape d) = Inr (draw_offset ?dp d)" by blast
  have "initialized (advance_offset (draw_offset ?dp d) cls)"
    using Cons.prems(2) by (simp add: initialized_advance)
  from Cons.IH [OF ds this] obtain rs cls' where
    2: "invoke_all env ds (advance_offset (draw_offset ?dp d) cls) = (Inr rs, cls')"
    and l: "length rs = length ds"
    and s: "get_current_relative_offset cls'
         = get_current_relative_offset (advance_offset (draw_offset ?dp d) cls)
           + sum_list (map (draw_offset ?dp) ds)"
    and a: "list_all (\<lambda>d. rand_offset_calculator ?dp (draw_shape d) = Inr (draw_offset ?dp d)) ds"
    and p: "running_state cls' = running_state (advance_offset (draw_offset ?dp d) cls)"
    by blast
  have "invoke_all env (d # ds) cls = (Inr (r # rs), cls')"
    by (simp add: 1 2)
  moreover have "length (r # rs) = length (d # ds)" using l by simp
  moreover have "get_current_relative_offset cls'
      = get_current_relative_offset cls + sum_list (map (draw_offset ?dp) (d # ds))"
    using s by (simp add: relative_offset_advance)
  moreover have "list_all (\<lambda>d. rand_offset_calculator ?dp (draw_shape d) = Inr (draw_offset ?dp d)) (d # ds)"
    using c a by simp
  moreover have "running_state cls' = running_state cls"
    using p by (simp add: refs_advance)
  ultimately show ?case by blast
qed

lemma initialized_recorded_forward:
  "initialized (snd (record_state (Scalar s) (Scalar b) ''forward'' (mark_beginning_of_forward cls)))"
  by (simp add: initialized_def record_state_def update_object_def mark_beginning_of_forward_def
        PhiloxState_set_state_def)

lemma initialized_recorded_backward:
  "initialized (snd (record_state (Scalar s) (Scalar b) ''backward'' (mark_beginning_of_backward cls)))"
  by (simp add: initialized_def record_state_def update_object_def mark_beginning_of_backward_def
        PhiloxState_set_state_def)

lemma relative_offset_recorded_forward:
  "get_current_relative_offset
     (snd (record_state sd offset ''forward'' (mark_beginning_of_forward cls))) = 0"
  by (simp add: get_current_relative_offset_def record_state_def update_object_def
        mark_beginning_of_forward_def PhiloxState_set_state_def)

text \<open>
  C5, as amended.  Let the primitive return, the device have at least one block, and the
  draws be \<open>drawable\<close>: a cuda device object given (for \<^verbatim>\<open>rand_like\<close>, given or taken from
  \<open>x\<close>), a shape of 1 to \<open>2 ^ 48\<close> elements, and for \<^verbatim>\<open>rand\<close> a stride helper that
  returns.  Then, after \<^verbatim>\<open>clear\<close>, beginning the forward
  phase and recording a non-empty seed and offset for "forward", two invocations of
  \<^verbatim>\<open>rand\<close> with shape [4, 4] both return, the calculator gives 4 for [4, 4], and the
  current relative offset is 2 * 4; after then beginning the backward phase, recording a
  non-empty seed and offset for "backward" and one invocation of \<^verbatim>\<open>rand_like\<close> of \<open>x\<close>,
  which returns, the accumulated offsets are 2 * 4 and the offset the calculator computes
  for the shape of \<open>x\<close>.  In general, from any state whose running state is initialized,
  every draw of a sequence of drawable draws returns, and the running state's relative
  offset grows by the sum of the offsets the calculator computes for the draws.
\<close>

theorem offsets_accumulate_per_phase:
  assumes prim: "\<And>shp sd offset stride dev dt. returns (philox_rand env shp sd offset stride dev dt)"
    and dev: "usable_device (get_device_properties env)"
  shows "(drawable env (Rand first_args) \<and> shape first_args = [4, 4] \<and> drawable env (Rand second_args) \<and> shape second_args = [4, 4]
          \<and> drawable env (Rand_like x like_args) \<longrightarrow>
      (\<exists>r1 c3 r2 c4 r3 c7.
          rand env first_args (snd (record_state (Scalar seed_f) (Scalar offset_f) ''forward''
                              (mark_beginning_of_forward (clear start)))) = (Inr r1, c3)
        \<and> rand env second_args c3 = (Inr r2, c4)
        \<and> rand_offset_calculator (get_device_properties env) [4, 4] = Inr 4
        \<and> get_current_relative_offset c4 = 2 * 4
        \<and> rand_like env (x, like_args) (snd (record_state (Scalar seed_b) (Scalar offset_b) ''backward''
                                     (mark_beginning_of_backward c4))) = (Inr r3, c7)
        \<and> rand_offset_calculator (get_device_properties env) (x_shape x)
             = Inr (draw_offset (get_device_properties env) (Rand_like x like_args))
        \<and> get_accumulated_offsets c7
             = \<lparr>total_fwd_offset = 2 * 4,
                total_bwd_offset = draw_offset (get_device_properties env) (Rand_like x like_args)\<rparr>))
    \<and> (list_all (drawable env) ds \<and> initialized cls \<longrightarrow>
      (\<exists>rs cls'.
          invoke_all env ds cls = (Inr rs, cls') \<and> length rs = length ds
        \<and> list_all (\<lambda>d. rand_offset_calculator (get_device_properties env) (draw_shape d)
                            = Inr (draw_offset (get_device_properties env) d)) ds
        \<and> get_current_relative_offset cls'
             = get_current_relative_offset cls
               + sum_list (map (draw_offset (get_device_properties env)) ds)))"
proof (intro conjI impI)
  let ?dp = "get_device_properties env"
  assume "drawable env (Rand first_args) \<and> shape first_args = [4, 4] \<and> drawable env (Rand second_args) \<and> shape second_args = [4, 4]
          \<and> drawable env (Rand_like x like_args)"
  then have a1: "drawable env (Rand first_args)" and s1: "shape first_args = [4, 4]"
    and a2: "drawable env (Rand second_args)" and s2: "shape second_args = [4, 4]"
    and x: "drawable env (Rand_like x like_args)" by blast+
  define c2 where "c2 = snd (record_state (Scalar seed_f) (Scalar offset_f) ''forward''
                          (mark_beginning_of_forward (clear start)))"
  have four: "rand_offset_calculator ?dp [4, 4] = Inr 4"
    using dev by (rule calculator_4_4_usable)
  have o1: "draw_offset ?dp (Rand first_args) = 4" and o2: "draw_offset ?dp (Rand second_args) = 4"
    by (simp_all add: draw_offset_def s1 s2 four)
  have i2: "initialized c2"
    unfolding c2_def by (rule initialized_recorded_forward)
  from invoke_draws [OF prim dev a1 i2] obtain r1 where
    1: "rand env first_args c2 = (Inr r1, advance_offset 4 c2)"
    by (auto simp: o1)
  have i3: "initialized (advance_offset 4 c2)"
    using i2 by (simp add: initialized_advance)
  from invoke_draws [OF prim dev a2 i3] obtain r2 where
    2: "rand env second_args (advance_offset 4 c2) = (Inr r2, advance_offset 4 (advance_offset 4 c2))"
    by (auto simp: o2)
  define c4 where "c4 = advance_offset 4 (advance_offset 4 c2)"
  have rel: "get_current_relative_offset c4 = 2 * 4"
    by (simp add: c4_def c2_def relative_offset_advance relative_offset_recorded_forward)
  define c6 where "c6 = snd (record_state (Scalar seed_b) (Scalar offset_b) ''backward''
                          (mark_beginning_of_backward c4))"
  have i6: "initialized c6"
    unfolding c6_def by (rule initialized_recorded_backward)
  from invoke_draws [OF prim dev x i6] obtain r3 where
    3: "rand_like env (x, like_args) c6
          = (Inr r3, advance_offset (draw_offset ?dp (Rand_like x like_args)) c6)"
    and m: "rand_offset_calculator ?dp (x_shape x) = Inr (draw_offset ?dp (Rand_like x like_args))"
    by auto
  from scenario_backward [OF c2_def c4_def c6_def 3] m
  have acc: "get_accumulated_offsets (advance_offset (draw_offset ?dp (Rand_like x like_args)) c6)
      = \<lparr>total_fwd_offset = 2 * 4, total_bwd_offset = draw_offset ?dp (Rand_like x like_args)\<rparr>"
    by auto
  have second: "rand env second_args (advance_offset 4 c2) = (Inr r2, c4)"
    by (simp only: 2 c4_def)
  note third = 3 [unfolded c6_def] and acc' = acc [unfolded c6_def]
  show "\<exists>r1 c3 r2 c4 r3 c7.
          rand env first_args (snd (record_state (Scalar seed_f) (Scalar offset_f) ''forward''
                              (mark_beginning_of_forward (clear start)))) = (Inr r1, c3)
        \<and> rand env second_args c3 = (Inr r2, c4)
        \<and> rand_offset_calculator ?dp [4, 4] = Inr 4
        \<and> get_current_relative_offset c4 = 2 * 4
        \<and> rand_like env (x, like_args) (snd (record_state (Scalar seed_b) (Scalar offset_b) ''backward''
                                     (mark_beginning_of_backward c4))) = (Inr r3, c7)
        \<and> rand_offset_calculator ?dp (x_shape x) = Inr (draw_offset ?dp (Rand_like x like_args))
        \<and> get_accumulated_offsets c7
             = \<lparr>total_fwd_offset = 2 * 4,
                total_bwd_offset = draw_offset ?dp (Rand_like x like_args)\<rparr>"
    unfolding c2_def [symmetric]
    apply (intro exI conjI)
          apply (rule 1)
         apply (rule second)
        apply (rule four)
       apply (rule rel)
      apply (rule third)
     apply (rule m)
    apply (rule acc')
    done
next
  let ?dp = "get_device_properties env"
  assume "list_all (drawable env) ds \<and> initialized cls"
  then have ds: "list_all (drawable env) ds" and init: "initialized cls" by blast+
  from invoke_all_draws [OF prim dev ds init] obtain rs cls' where
    "invoke_all env ds cls = (Inr rs, cls')" and "length rs = length ds"
    and "get_current_relative_offset cls'
         = get_current_relative_offset cls + sum_list (map (draw_offset ?dp) ds)"
    and "list_all (\<lambda>d. rand_offset_calculator ?dp (draw_shape d) = Inr (draw_offset ?dp d)) ds"
    by blast
  then show "\<exists>rs cls'.
          invoke_all env ds cls = (Inr rs, cls') \<and> length rs = length ds
        \<and> list_all (\<lambda>d. rand_offset_calculator ?dp (draw_shape d) = Inr (draw_offset ?dp d)) ds
        \<and> get_current_relative_offset cls'
             = get_current_relative_offset cls + sum_list (map (draw_offset ?dp) ds)"
    by blast
qed

theorem offsets_accumulate_per_phase_witness:
  "returns (fst (rand example_env (example_args (Some (Device ''cuda'' (Some 0)))) example_forward))
   \<and> get_current_relative_offset
        (snd (rand example_env (example_args (Some (Device ''cuda'' (Some 0))))
           (snd (rand example_env (example_args (Some (Device ''cuda'' (Some 0))))
              example_forward)))) = 8
   \<and> get_accumulated_offsets
        (snd (rand_like example_env (example_x, example_args None)
           (snd (record_state (Scalar 43) (Scalar 100) ''backward''
              (mark_beginning_of_backward
                 (snd (rand example_env (example_args (Some (Device ''cuda'' (Some 0))))
                    (snd (rand example_env (example_args (Some (Device ''cuda'' (Some 0))))
                       example_forward)))))))))
       = \<lparr>total_fwd_offset = 8, total_bwd_offset = 4\<rparr>
   \<and> get_current_relative_offset
        (snd (invoke_all example_env
           [Rand (example_args (Some (Device ''cuda'' (Some 0)))),
            Rand_like example_x (example_args None)] example_forward)) = 8"
proof -
  let ?a = "example_args (Some (Device ''cuda'' (Some 0)))"
  let ?ds = "[Rand ?a, Rand_like example_x (example_args None)]"
  have prim: "\<And>shp sd offset stride dev dt.
      returns (philox_rand example_env shp sd offset stride dev dt)"
    by (simp add: example_env_def)
  have dev: "usable_device (get_device_properties example_env)"
    by (simp add: example_env_def a100_def usable_device_def)
  have a: "drawable example_env (Rand ?a)"
    by (simp add: example_args_def example_env_def or_default_def in_range_def)
  have sh: "shape ?a = [4, 4]"
    by (simp add: example_args_def)
  have x: "drawable example_env (Rand_like example_x (example_args None))"
    by (simp add: example_args_def example_x_def or_default_def in_range_def)
  have ds: "list_all (drawable example_env) ?ds"
    using a x by simp
  have init: "initialized example_forward"
    unfolding example_forward_def by (rule initialized_recorded_forward)
  have ox: "draw_offset (get_device_properties example_env) (Rand_like example_x (example_args None)) = 4"
    by (simp add: draw_offset_def example_env_def example_x_def calculator_2_3)
  have oa: "draw_offset (get_device_properties example_env) (Rand ?a) = 4"
    by (simp add: draw_offset_def example_env_def example_args_def calculator_4_4)
  have rel: "get_current_relative_offset example_forward = 0"
    unfolding example_forward_def by (rule relative_offset_recorded_forward)
  note inst = offsets_accumulate_per_phase
         [OF prim dev, where first_args = "?a" and second_args = "?a" and x = example_x
            and like_args = "example_args None" and ds = "?ds" and cls = example_forward
            and seed_f = 42 and offset_f = 7 and start = class_PhiloxStateTracker
            and seed_b = 43 and offset_b = 100]
  from inst a sh x ds init
  obtain r1 c3 r2 c4 r3 c7 rs cls' where
    1: "rand example_env ?a example_forward = (Inr r1, c3)"
    and 2: "rand example_env ?a c3 = (Inr r2, c4)"
    and 3: "get_current_relative_offset c4 = 2 * 4"
    and 4: "rand_like example_env (example_x, example_args None)
              (snd (record_state (Scalar 43) (Scalar 100) ''backward''
                     (mark_beginning_of_backward c4))) = (Inr r3, c7)"
    and 5: "get_accumulated_offsets c7
         = \<lparr>total_fwd_offset = 2 * 4,
            total_bwd_offset = draw_offset (get_device_properties example_env)
                                 (Rand_like example_x (example_args None))\<rparr>"
    and 6: "invoke_all example_env ?ds example_forward = (Inr rs, cls')"
    and 7: "get_current_relative_offset cls'
         = get_current_relative_offset example_forward
           + sum_list (map (draw_offset (get_device_properties example_env)) ?ds)"
    unfolding example_forward_def [symmetric] by blast
  have c3: "snd (rand example_env ?a example_forward) = c3" by (simp add: 1)
  have c4: "snd (rand example_env ?a c3) = c4" by (simp add: 2)
  show ?thesis
    unfolding c3 c4
    by (simp add: 1 3 4 5 6 7 ox oa rel del: invoke_all.simps)
qed

text \<open>
  The scenario of C5 as written, \<^verbatim>\<open>rand\<close> invoked with the shape only: the device
  defaults to the string "cpu", each invocation raises AttributeError, and the relative
  offset stays 0 where the claim has 2 * 4.
\<close>

theorem rand_literal_scenario_counterexample:
  "rand example_env (example_args None) example_forward
      = (Inl (AttributeError ([CHR 0x27] @ ''str'' @ [CHR 0x27] @ '' object has no attribute ''
                @ [CHR 0x27] @ ''type'' @ [CHR 0x27])), example_forward)
   \<and> rand_offset_calculator (get_device_properties example_env) [4, 4] = Inr 4
   \<and> get_current_relative_offset
        (snd (rand example_env (example_args None)
           (snd (rand example_env (example_args None) example_forward)))) = 0
   \<and> get_current_relative_offset
        (snd (rand example_env (example_args None)
           (snd (rand example_env (example_args None) example_forward)))) \<noteq> 2 * 4"
proof -
  have 1: "rand example_env (example_args None) example_forward
      = (Inl (AttributeError ([CHR 0x27] @ ''str'' @ [CHR 0x27] @ '' object has no attribute ''
                @ [CHR 0x27] @ ''type'' @ [CHR 0x27])), example_forward)"
    by (simp add: rand_def rand_fn_def or_default_def example_args_def
          throw_if_philox_offset_did_not_advance_def)
  have 2: "rand_offset_calculator (get_device_properties example_env) [4, 4] = Inr 4"
    by (simp add: example_env_def calculator_4_4)
  have 3: "get_current_relative_offset example_forward = 0"
    unfolding example_forward_def by (rule relative_offset_recorded_forward)
  from 1 2 3 show ?thesis by simp
qed

section \<open>Properties of RNGStateHelper\<close>

lemma int64_of_bytes_view_uint8: "int64_of_bytes (view_uint8 w) = w"
proof (rule bit_word_eqI)
  fix n :: nat
  assume n: "n < LENGTH(64)"
  then have d: "n div 8 < 8" by simp
  have "bit (horner_sum uint (2 ^ LENGTH(8)) (view_uint8 w)) n
      \<longleftrightarrow> bit (view_uint8 w ! (n div 8)) (n mod 8)"
    using d by (subst bit_horner_sum_uint_exp_iff) (simp add: view_uint8_def)
  also have "view_uint8 w ! (n div 8) = ucast (drop_bit (8 * (n div 8)) w)"
    using d by (simp add: view_uint8_def del: upt_Suc)
  also have "bit (ucast (drop_bit (8 * (n div 8)) w) :: 8 word) (n mod 8) \<longleftrightarrow> bit w n"
    by (simp add: bit_ucast_iff bit_drop_bit_eq)
  finally show "bit (int64_of_bytes (view_uint8 w)) n \<longleftrightarrow> bit w n"
    using n by (simp add: int64_of_bytes_def bit_word_of_int_iff)
qed

lemma length_view_uint8: "length (view_uint8 w) = 8"
  by (simp add: view_uint8_def)

lemma view_uint8_not_Nil: "view_uint8 w \<noteq> []"
  by (simp add: view_uint8_def)

lemma view_int64_first_view_uint8: "view_int64_first (view_uint8 w) = Inr w"
  by (simp add: view_int64_first_def length_view_uint8 view_uint8_not_Nil
        int64_of_bytes_view_uint8)

text \<open>
  C9, as amended.  When a CUDA device is available, \<^verbatim>\<open>set_torch_state_tensor\<close> followed by
  \<^verbatim>\<open>get_torch_state_as_tuple\<close> returns the seed and offset written, for every seed and
  offset: the buffer written is 800 bytes of prefix, the 8 bytes of the seed, the 8 bytes
  of the offset, and the read takes the seed from bytes 800 to 808 and the offset from
  the bytes after them.  When no device is available, the read returns (0, 0) whatever
  was written.
\<close>

theorem write_then_read_state:
  "(is_available c \<longrightarrow>
      get_torch_state_as_tuple None (set_torch_state_tensor sd offset c) = Inr (sd, offset)
    \<and> rng_state (set_torch_state_tensor sd offset c)
        = replicate 800 255 @ view_uint8 sd @ view_uint8 offset
    \<and> length (rng_state (set_torch_state_tensor sd offset c)) = 816
    \<and> take 8 (drop 800 (rng_state (set_torch_state_tensor sd offset c))) = view_uint8 sd
    \<and> drop 808 (rng_state (set_torch_state_tensor sd offset c)) = view_uint8 offset
    \<and> int64_of_bytes (view_uint8 sd) = sd \<and> int64_of_bytes (view_uint8 offset) = offset)
   \<and> (\<not> is_available c \<longrightarrow>
      get_torch_state_as_tuple fake_mode (set_torch_state_tensor sd offset c) = Inr (0, 0))"
  by (simp add: get_torch_state_as_tuple_def set_torch_state_tensor_def set_rng_state_def
        get_rng_state_def length_view_uint8 view_int64_first_view_uint8 bind_err_def
        int64_of_bytes_view_uint8)

theorem write_then_read_state_witness:
  "get_torch_state_as_tuple None
     (set_torch_state_tensor 42 7 \<lparr>is_available = True, rng_state = []\<rparr>) = Inr (42, 7)
   \<and> get_torch_state_as_tuple None
     (set_torch_state_tensor 5 9 \<lparr>is_available = False, rng_state = replicate 816 1\<rparr>)
       = Inr (0, 0)"
  using
    write_then_read_state [where c = "\<lparr>is_available = True, rng_state = []\<rparr>"
      and sd = 42 and offset = 7 and fake_mode = None]
    write_then_read_state [where c = "\<lparr>is_available = False, rng_state = replicate 816 1\<rparr>"
      and sd = 5 and offset = 9 and fake_mode = None]
  by simp

text \<open>
  Without a CUDA device the read returns the pair (0, 0), whatever was written: the
  round trip of C9 as stated, for every environment, fails there.
\<close>

theorem read_without_device_counterexample:
  "get_torch_state_as_tuple None
     (set_torch_state_tensor 42 7 \<lparr>is_available = False, rng_state = []\<rparr>) = Inr (0, 0)
   \<and> get_torch_state_as_tuple None
     (set_torch_state_tensor 42 7 \<lparr>is_available = False, rng_state = []\<rparr>) \<noteq> Inr (42, 7)"
  by (simp add: get_torch_state_as_tuple_def set_torch_state_tensor_def set_rng_state_def)

end
